theory Spec2Isabelle
  imports Complex_Main "HOL-Library.Multiset" "HOL-Library.Sublist"
begin

section \<open>The memory store (src/ai/memoryStream.ts)\<close>

subsection \<open>Numbers\<close>

text \<open>
  A JavaScript number is an IEEE 754 double: not-a-number, an infinity, or a finite value.
  A finite double is given here by its value, a real; the two zeros are one value (the
  store never divides by a stored number and never reads the sign of a zero). An
  arithmetic operation on finite numbers is the exact operation on the values, rounded.

  \<open>num x\<close> is the double nearest to the real \<open>x\<close>, the one with the even significand when
  two are equally near. \<open>binade a\<close> is the exponent \<open>e\<close> with \<open>2 ^ e \<le> a < 2 ^ (e + 1)\<close>, kept
  within the exponents \<open>- 1022\<close> to \<open>1023\<close> of the format; the doubles of that magnitude are
  the multiples of \<open>2 ^ (e - 52)\<close>. A decimal literal \<^verbatim>\<open>0.1\<close> of the source is \<open>num 0.1\<close>.
  Clock readings (\<^verbatim>\<open>Date.now()\<close>) and identifiers are integers.
\<close>

datatype number = NaN | PInfinity | NInfinity | Num real

definition roundTiesToEven :: "real \<Rightarrow> int" where
  "roundTiesToEven x =
     (let f = \<lfloor>x\<rfloor>; d = x - of_int f
      in if d < 1 / 2 then f else if 1 / 2 < d then f + 1 else if even f then f else f + 1)"

fun binade_up :: "nat \<Rightarrow> real \<Rightarrow> int \<Rightarrow> int" where
  "binade_up 0 a e = e"
| "binade_up (Suc k) a e = (if a < 2 powi (e + 1) then e else binade_up k a (e + 1))"

fun binade_down :: "nat \<Rightarrow> real \<Rightarrow> int \<Rightarrow> int" where
  "binade_down 0 a e = e"
| "binade_down (Suc k) a e = (if 2 powi e \<le> a then e else binade_down k a (e - 1))"

definition binade :: "real \<Rightarrow> int" where
  "binade a = (if 1 \<le> a then binade_up 1023 a 0 else binade_down 1021 a (- 1))"

definition num :: "real \<Rightarrow> number" where
  "num x =
     (let q = 2 powi (binade \<bar>x\<bar> - 52);
          r = of_int (roundTiesToEven (x / q)) * q
      in if 2 ^ 1024 \<le> r then PInfinity else if r \<le> - (2 ^ 1024) then NInfinity else Num r)"

text \<open>The operators \<^verbatim>\<open>+\<close>, \<^verbatim>\<open>-\<close> and \<^verbatim>\<open>/\<close> on numbers.\<close>

fun num_add :: "number \<Rightarrow> number \<Rightarrow> number" where
  "num_add (Num x) (Num y) = num (x + y)"
| "num_add NaN _ = NaN"
| "num_add _ NaN = NaN"
| "num_add PInfinity NInfinity = NaN"
| "num_add NInfinity PInfinity = NaN"
| "num_add PInfinity _ = PInfinity"
| "num_add _ PInfinity = PInfinity"
| "num_add NInfinity _ = NInfinity"
| "num_add _ NInfinity = NInfinity"

fun num_sub :: "number \<Rightarrow> number \<Rightarrow> number" where
  "num_sub (Num x) (Num y) = num (x - y)"
| "num_sub NaN _ = NaN"
| "num_sub _ NaN = NaN"
| "num_sub PInfinity PInfinity = NaN"
| "num_sub NInfinity NInfinity = NaN"
| "num_sub PInfinity _ = PInfinity"
| "num_sub _ NInfinity = PInfinity"
| "num_sub NInfinity _ = NInfinity"
| "num_sub _ PInfinity = NInfinity"

fun num_div :: "number \<Rightarrow> number \<Rightarrow> number" where
  "num_div (Num x) (Num y) =
     (if y = 0 then (if x = 0 then NaN else if 0 < x then PInfinity else NInfinity)
      else num (x / y))"
| "num_div NaN _ = NaN"
| "num_div _ NaN = NaN"
| "num_div (Num x) _ = Num 0"
| "num_div PInfinity (Num y) = (if 0 \<le> y then PInfinity else NInfinity)"
| "num_div NInfinity (Num y) = (if 0 \<le> y then NInfinity else PInfinity)"
| "num_div _ _ = NaN"

text \<open>The comparisons \<^verbatim>\<open><\<close>, \<^verbatim>\<open>>\<close> and \<^verbatim>\<open>>=\<close>: false as soon as an operand is not a number.\<close>

fun num_lt :: "number \<Rightarrow> number \<Rightarrow> bool" where
  "num_lt (Num x) (Num y) \<longleftrightarrow> x < y"
| "num_lt NaN _ \<longleftrightarrow> False"
| "num_lt _ NaN \<longleftrightarrow> False"
| "num_lt PInfinity _ \<longleftrightarrow> False"
| "num_lt _ PInfinity \<longleftrightarrow> True"
| "num_lt _ NInfinity \<longleftrightarrow> False"
| "num_lt NInfinity _ \<longleftrightarrow> True"

definition num_gt :: "number \<Rightarrow> number \<Rightarrow> bool" where
  "num_gt a b \<longleftrightarrow> num_lt b a"

definition num_ge :: "number \<Rightarrow> number \<Rightarrow> bool" where
  "num_ge a b \<longleftrightarrow> a \<noteq> NaN \<and> b \<noteq> NaN \<and> (a = b \<or> num_lt b a)"

fun Math_abs :: "number \<Rightarrow> number" where
  "Math_abs NaN = NaN"
| "Math_abs PInfinity = PInfinity"
| "Math_abs NInfinity = PInfinity"
| "Math_abs (Num x) = Num \<bar>x\<bar>"

definition Math_min :: "number \<Rightarrow> number \<Rightarrow> number" where
  "Math_min a b = (if a = NaN \<or> b = NaN then NaN else if num_lt b a then b else a)"

definition Math_max :: "number \<Rightarrow> number \<Rightarrow> number" where
  "Math_max a b = (if a = NaN \<or> b = NaN then NaN else if num_lt a b then b else a)"


text \<open>
  \<^verbatim>\<open>ToIntegerOrInfinity\<close> drops the fraction of a finite number; \<open>trunc\<close> is that integer.
\<close>

definition trunc :: "real \<Rightarrow> int" where
  "trunc r = (if r < 0 then \<lceil>r\<rceil> else \<lfloor>r\<rfloor>)"

subsection \<open>What the engine decides\<close>

text \<open>
  The language leaves two results that the store uses to the engine. \<^verbatim>\<open>Math.pow\<close> returns
  an approximation of the power that the engine chooses. \<^verbatim>\<open>Array.prototype.sort\<close> orders
  the array as the engine chooses when the comparator is not consistent; \<open>sort_order\<close> is
  then given the comparator on the positions of the array and the length, and returns the
  old positions in their new order.
\<close>

record Engine =
  Math_pow :: "number \<Rightarrow> number \<Rightarrow> number"
  sort_order :: "(nat \<Rightarrow> nat \<Rightarrow> number) \<Rightarrow> nat \<Rightarrow> nat list"

subsection \<open>Data\<close>

text \<open>
  Strings are lists of 8-bit code units.

  The identifier \<^verbatim>\<open>mem_<n>\<close> is modelled by the number \<open>n\<close> itself (the prefix is the same
  for every entry, so equality of identifiers is equality of the numbers).

  The field \<^verbatim>\<open>content\<close> is declared a string, but \<^verbatim>\<open>reflect\<close> stores whatever value the
  parsed reply holds; the type of the content is therefore a parameter \<open>'c\<close>.
\<close>

datatype MemoryType = Observation | Episode | Reflection | Fact

record 'c MemoryEntry =
  mid :: nat
  content :: 'c
  mtype :: MemoryType
  timestamp :: int
  lastAccessed :: int
  importance :: number
  entities :: "string list"

record 'c MemoryStream =
  memories :: "'c MemoryEntry list"
  importanceSinceLastReflection :: number
  nextId :: nat

text \<open>
  \<^verbatim>\<open>MEMORY_CONFIG\<close> is imported from src/core/constants.ts, but the constants file at hand
  does not declare it: its fields are parameters of the model.
\<close>

record MEMORY_CONFIG =
  maxMemories :: nat
  retrieveLimit :: number
  decayRate :: number
  reflectionThreshold :: number
  reflectionInputCount :: nat

definition new_MemoryStream :: "'c MemoryStream" where
  "new_MemoryStream = \<lparr>memories = [], importanceSinceLastReflection = Num 0, nextId = 0\<rparr>"

subsection \<open>Array.prototype.sort and Array.prototype.slice\<close>

text \<open>
  \<^verbatim>\<open>sort(cmp)\<close> reads a result of the comparator that is not a number as 0, and uses
  the sign of the result: \<open>sort_value\<close> is a real with the sign that the sort sees.
\<close>

fun sort_value :: "number \<Rightarrow> real" where
  "sort_value NaN = 0"
| "sort_value PInfinity = 1"
| "sort_value NInfinity = - 1"
| "sort_value (Num x) = x"

text \<open>
  A consistent comparator for the elements of an array, as the language defines it: no
  result is not-a-number; every element is equal to itself; equality is symmetric and
  transitive; less-than and greater-than are transitive.
\<close>

definition consistent_comparator :: "('a \<Rightarrow> 'a \<Rightarrow> number) \<Rightarrow> 'a list \<Rightarrow> bool" where
  "consistent_comparator cmp xs \<longleftrightarrow>
     (\<forall>a\<in>set xs. \<forall>b\<in>set xs. \<forall>c\<in>set xs.
        cmp a b \<noteq> NaN \<and>
        sort_value (cmp a a) = 0 \<and>
        (sort_value (cmp a b) = 0 \<longrightarrow> sort_value (cmp b a) = 0) \<and>
        (sort_value (cmp a b) = 0 \<and> sort_value (cmp b c) = 0 \<longrightarrow> sort_value (cmp a c) = 0) \<and>
        (sort_value (cmp a b) < 0 \<and> sort_value (cmp b c) < 0 \<longrightarrow> sort_value (cmp a c) < 0) \<and>
        (sort_value (cmp a b) > 0 \<and> sort_value (cmp b c) > 0 \<longrightarrow> sort_value (cmp a c) > 0))"

text \<open>
  For a consistent comparator the language fixes the result: the elements in ascending
  order of the comparator, equal elements in their old order. \<open>js_sort\<close> computes it by
  straight insertion: each element in turn is moved left past the elements \<open>y\<close> with
  \<open>cmp y x > 0\<close>. The sorted prefix is kept reversed, so that its head is its right end.
\<close>

fun sort_insert :: "('a \<Rightarrow> 'a \<Rightarrow> real) \<Rightarrow> 'a \<Rightarrow> 'a list \<Rightarrow> 'a list" where
  "sort_insert cmp x [] = [x]"
| "sort_insert cmp x (y # ys) =
     (if cmp y x > 0 then y # sort_insert cmp x ys else x # y # ys)"

definition js_sort :: "('a \<Rightarrow> 'a \<Rightarrow> real) \<Rightarrow> 'a list \<Rightarrow> 'a list" where
  "js_sort cmp xs = rev (foldl (\<lambda>acc x. sort_insert cmp x acc) [] xs)"

text \<open>
  \<open>Array_sort\<close> is \<^verbatim>\<open>sort(cmp)\<close> on a copy of the array. For a comparator that is not
  consistent the elements are put in the order that the engine gives; every engine
  rearranges the array, so an order that is not a rearrangement of the positions leaves
  the array as it is.
\<close>

definition Array_sort :: "Engine \<Rightarrow> ('a \<Rightarrow> 'a \<Rightarrow> number) \<Rightarrow> 'a list \<Rightarrow> 'a list" where
  "Array_sort eng cmp xs =
     (if consistent_comparator cmp xs then js_sort (\<lambda>a b. sort_value (cmp a b)) xs
      else let order = sort_order eng (\<lambda>i j. cmp (xs ! i) (xs ! j)) (length xs)
           in if mset order = mset [0..<length xs] then map (\<lambda>i. xs ! i) order else xs)"

text \<open>
  \<^verbatim>\<open>xs.slice(0, e)\<close> for an integer \<open>e\<close>: a negative end counts from the end of the array.
  \<open>slice0\<close> is \<^verbatim>\<open>xs.slice(0, e)\<close> for any number \<open>e\<close>.
\<close>

definition js_slice0 :: "int \<Rightarrow> 'a list \<Rightarrow> 'a list" where
  "js_slice0 e xs =
     (if e < 0 then take (nat (max (int (length xs) + e) 0)) xs else take (nat e) xs)"

definition slice0 :: "number \<Rightarrow> 'a list \<Rightarrow> 'a list" where
  "slice0 e xs =
     (case e of NaN \<Rightarrow> [] | PInfinity \<Rightarrow> xs | NInfinity \<Rightarrow> [] | Num r \<Rightarrow> js_slice0 (trunc r) xs)"

subsection \<open>add and evict\<close>

definition evict_cmp :: "'c MemoryEntry \<Rightarrow> 'c MemoryEntry \<Rightarrow> number" where
  "evict_cmp a b =
     (if mtype a = Reflection \<and> mtype b \<noteq> Reflection then Num 1
      else if mtype b = Reflection \<and> mtype a \<noteq> Reflection then Num (- 1)
      else let importanceDiff = num_sub (importance a) (importance b) in
        if num_gt (Math_abs importanceDiff) (num 0.1) then importanceDiff
        else num_sub (num (of_int (timestamp a))) (num (of_int (timestamp b))))"

definition evict :: "Engine \<Rightarrow> MEMORY_CONFIG \<Rightarrow> 'c MemoryStream \<Rightarrow> 'c MemoryStream" where
  "evict eng cfg s =
     (let sorted = Array_sort eng evict_cmp (memories s);
          toRemove = int (length (memories s)) - int (maxMemories cfg);
          removeIds = set (map mid (js_slice0 toRemove sorted))
      in s\<lparr>memories := filter (\<lambda>m. mid m \<notin> removeIds) (memories s)\<rparr>)"

text \<open>
  \<open>add\<close> takes the clock reading \<^verbatim>\<open>Date.now()\<close> as its argument \<open>now\<close> and returns the
  new entry together with the updated store.
\<close>

definition add ::
  "Engine \<Rightarrow> MEMORY_CONFIG \<Rightarrow> int \<Rightarrow> 'c \<Rightarrow> MemoryType \<Rightarrow> number \<Rightarrow> string list \<Rightarrow> 'c MemoryStream
     \<Rightarrow> 'c MemoryEntry \<times> 'c MemoryStream" where
  "add eng cfg now c ty imp ents s =
     (let entry = \<lparr>mid = nextId s, content = c, mtype = ty, timestamp = now,
                   lastAccessed = now, importance = Math_max (Num 0) (Math_min (Num 1) imp),
                   entities = ents\<rparr>;
          s1 = s\<lparr>memories := memories s @ [entry],
                 importanceSinceLastReflection :=
                   num_add (importanceSinceLastReflection s) (importance entry),
                 nextId := nextId s + 1\<rparr>;
          s2 = (if length (memories s1) > maxMemories cfg then evict eng cfg s1 else s1)
      in (entry, s2))"

text \<open>One call of \<open>add\<close> with its arguments, and a sequence of calls.\<close>

record 'c add_call =
  call_now :: int
  call_content :: 'c
  call_type :: MemoryType
  call_importance :: number
  call_entities :: "string list"

definition add_step ::
  "Engine \<Rightarrow> MEMORY_CONFIG \<Rightarrow> 'c MemoryStream \<Rightarrow> 'c add_call \<Rightarrow> 'c MemoryStream" where
  "add_step eng cfg s c =
     snd (add eng cfg (call_now c) (call_content c) (call_type c) (call_importance c)
            (call_entities c) s)"

subsection \<open>tokenize and keywordOverlap\<close>

text \<open>
  \<^verbatim>\<open>toLowerCase\<close> on code units below 128 maps \<open>A\<close>-\<open>Z\<close> to \<open>a\<close>-\<open>z\<close>. A code unit from 128
  to 255 is never mapped to one below 128, and \<open>tokenize\<close> deletes every code unit that is
  not in \<^verbatim>\<open>[a-z0-9\s]\<close>, so leaving those code units as they are does not change any
  result below.
\<close>

definition toLowerCase :: "string \<Rightarrow> string" where
  "toLowerCase =
     map (\<lambda>c. case map_of (zip ''ABCDEFGHIJKLMNOPQRSTUVWXYZ'' ''abcdefghijklmnopqrstuvwxyz'') c of
                 Some l \<Rightarrow> l | None \<Rightarrow> c)"

text \<open>The class \<^verbatim>\<open>\s\<close> on code units below 256: tab, line feed, vertical tab, form feed,
  carriage return, space and no-break space.\<close>

definition is_space :: "char \<Rightarrow> bool" where
  "is_space c \<longleftrightarrow> c \<in> {CHR 0x09, CHR 0x0A, CHR 0x0B, CHR 0x0C, CHR 0x0D, CHR '' '', CHR 0xA0}"

definition is_token_char :: "char \<Rightarrow> bool" where
  "is_token_char c \<longleftrightarrow> c \<in> set ''abcdefghijklmnopqrstuvwxyz0123456789'' \<or> is_space c"

text \<open>
  \<^verbatim>\<open>split(/\s+/)\<close>: the pieces between maximal runs of white space, the empty pieces at
  either end included. The flag says that the previous character was white space; \<open>cur\<close>
  is the current piece, reversed.
\<close>

fun split_ws :: "bool \<Rightarrow> string \<Rightarrow> string \<Rightarrow> string list" where
  "split_ws inws cur [] = [rev cur]"
| "split_ws inws cur (c # cs) =
     (if is_space c then (if inws then split_ws True cur cs else rev cur # split_ws True [] cs)
      else split_ws False (c # cur) cs)"

definition tokenize :: "string \<Rightarrow> string list" where
  "tokenize text =
     filter (\<lambda>t. length t > 2) (split_ws False [] (filter is_token_char (toLowerCase text)))"

fun join :: "string \<Rightarrow> string list \<Rightarrow> string" where
  "join sep [] = []"
| "join sep [x] = x"
| "join sep (x # y # ys) = x @ sep @ join sep (y # ys)"

text \<open>\<open>str\<close> is the conversion to a string that a template literal applies to the content.
  The counts \<^verbatim>\<open>matches\<close> and \<^verbatim>\<open>queryTokens.length\<close> are integers, and their quotient is
  rounded.\<close>

definition keywordOverlap :: "('c \<Rightarrow> string) \<Rightarrow> string list \<Rightarrow> 'c MemoryEntry \<Rightarrow> number" where
  "keywordOverlap str queryTokens memory =
     (if length queryTokens = 0 then Num 0
      else let memoryText = toLowerCase (str (content memory) @ '' '' @ join '' '' (entities memory));
               memoryTokens = set (tokenize memoryText);
               entitySet = set (map toLowerCase (entities memory));
               matches = length (filter (\<lambda>token. token \<in> memoryTokens \<or> token \<in> entitySet) queryTokens)
           in num (real matches / real (length queryTokens)))"

subsection \<open>retrieve\<close>

text \<open>
  The score of one entry: the two additions are made from left to right, each rounded.
\<close>

definition retrieve_score ::
  "Engine \<Rightarrow> MEMORY_CONFIG \<Rightarrow> ('c \<Rightarrow> string) \<Rightarrow> int \<Rightarrow> string list \<Rightarrow> 'c MemoryEntry \<Rightarrow> number" where
  "retrieve_score eng cfg str now queryTokens memory =
     (let hoursSinceAccess =
            num_div (num_sub (num (of_int now)) (num (of_int (lastAccessed memory)))) (Num 3600000);
          recency = Math_pow eng (decayRate cfg) hoursSinceAccess;
          relevance = keywordOverlap str queryTokens memory
      in num_add (num_add recency (importance memory)) relevance)"

text \<open>
  The array \<^verbatim>\<open>scored\<close> pairs every entry with its score. The entries are objects shared with
  \<^verbatim>\<open>this.memories\<close>, so the model pairs the position of the entry in \<open>memories\<close> with the
  score. \<open>retrieve_hits\<close> are the positions of \<^verbatim>\<open>results\<close>, in the order of the result.
  The optional argument \<open>limit\<close> defaults to \<open>retrieveLimit\<close>.
\<close>

definition retrieve_hits ::
  "Engine \<Rightarrow> MEMORY_CONFIG \<Rightarrow> ('c \<Rightarrow> string) \<Rightarrow> int \<Rightarrow> string \<Rightarrow> number option \<Rightarrow> 'c MemoryStream
     \<Rightarrow> nat list" where
  "retrieve_hits eng cfg str now query limit s =
     (let queryTokens = tokenize query;
          scored = map (\<lambda>i. (i, retrieve_score eng cfg str now queryTokens (memories s ! i)))
                     [0..<length (memories s)];
          sorted = Array_sort eng (\<lambda>a b. num_sub (snd b) (snd a)) scored;
          results = slice0 (case limit of None \<Rightarrow> retrieveLimit cfg | Some l \<Rightarrow> l) sorted
      in map fst results)"

definition retrieve ::
  "Engine \<Rightarrow> MEMORY_CONFIG \<Rightarrow> ('c \<Rightarrow> string) \<Rightarrow> int \<Rightarrow> string \<Rightarrow> number option \<Rightarrow> 'c MemoryStream
     \<Rightarrow> 'c MemoryEntry list \<times> 'c MemoryStream" where
  "retrieve eng cfg str now query limit s =
     (if length (memories s) = 0 then ([], s)
      else let hits = retrieve_hits eng cfg str now query limit s;
               touched = map (\<lambda>i. if i \<in> set hits then (memories s ! i)\<lparr>lastAccessed := now\<rparr>
                                    else memories s ! i) [0..<length (memories s)]
           in (map (\<lambda>i. touched ! i) hits, s\<lparr>memories := touched\<rparr>))"

subsection \<open>shouldReflect and reflect\<close>

definition shouldReflect :: "MEMORY_CONFIG \<Rightarrow> 'c MemoryStream \<Rightarrow> bool" where
  "shouldReflect cfg s \<longleftrightarrow>
     num_ge (importanceSinceLastReflection s) (reflectionThreshold cfg) \<and> length (memories s) \<ge> 5"

text \<open>
  The reply of the remote service, as \<open>reflect\<close> sees it: the call fails (\<open>Rejected\<close>),
  the response is null or empty (\<open>NoResponse\<close>), \<^verbatim>\<open>JSON.parse\<close> throws (\<open>Unparseable\<close>),
  or \<^verbatim>\<open>JSON.parse\<close> returns a value.
\<close>

datatype json = JNull | JBool bool | JNum real | JStr string | JArr "json list"
  | JObj "(string \<times> json) list"

datatype reply = Rejected | NoResponse | Unparseable | Parsed json

definition falsy :: "json \<Rightarrow> bool" where
  "falsy v \<longleftrightarrow> v = JNull \<or> v = JBool False \<or> v = JNum 0 \<or> v = JStr []"

text \<open>
  \<^verbatim>\<open>parsed.insights || []\<close>: reading a property of \<^verbatim>\<open>null\<close> throws (\<open>None\<close>); a value that
  is not an object, or an object without the property, gives \<^verbatim>\<open>undefined\<close> and so the
  empty array.
\<close>

fun get_insights :: "json \<Rightarrow> json option" where
  "get_insights JNull = None"
| "get_insights (JObj kvs) =
     (case map_of kvs ''insights'' of
        None \<Rightarrow> Some (JArr [])
      | Some v \<Rightarrow> Some (if falsy v then JArr [] else v))"
| "get_insights _ = Some (JArr [])"

text \<open>
  \<^verbatim>\<open>insights.slice(0, 2)\<close> and the values the loop runs over: the first two elements of an
  array, the first two characters of a string; any other value has no method \<^verbatim>\<open>slice\<close>
  and the call throws (\<open>None\<close>).
\<close>

fun slice2 :: "json \<Rightarrow> json list option" where
  "slice2 (JArr xs) = Some (take 2 xs)"
| "slice2 (JStr cs) = Some (map (\<lambda>c. JStr [c]) (take 2 cs))"
| "slice2 _ = None"

text \<open>The loop of \<open>reflect\<close>; \<open>clock k\<close> is the reading of the clock in the \<open>k\<close>-th call of \<open>add\<close>.\<close>

fun add_insights ::
  "Engine \<Rightarrow> MEMORY_CONFIG \<Rightarrow> (nat \<Rightarrow> int) \<Rightarrow> nat \<Rightarrow> json list \<Rightarrow> json MemoryStream
     \<Rightarrow> json MemoryEntry list \<times> json MemoryStream" where
  "add_insights eng cfg clock k [] s = ([], s)"
| "add_insights eng cfg clock k (insight # rest) s =
     (let (entry, s1) = add eng cfg (clock k) insight Reflection (num 0.8) [] s;
          (newMemories, s2) = add_insights eng cfg clock (Suc k) rest s1
      in (entry # newMemories, s2))"

text \<open>
  \<open>reflect_resolve\<close> is \<open>reflect\<close> from the point where the awaited reply arrives, on the
  store as it is then; \<open>reflect\<close> is the whole call when nothing touches the store while
  the reply is awaited. The prompt is built from the store and sent; it does not change
  the store, and the reply is an input here. The result \<open>None\<close> is \<^verbatim>\<open>null\<close>.
\<close>

definition reflect_resolve ::
  "Engine \<Rightarrow> MEMORY_CONFIG \<Rightarrow> (nat \<Rightarrow> int) \<Rightarrow> reply \<Rightarrow> json MemoryStream
     \<Rightarrow> json MemoryEntry list option \<times> json MemoryStream" where
  "reflect_resolve eng cfg clock r s =
     (case r of
        Rejected \<Rightarrow> (None, s)
      | NoResponse \<Rightarrow> (None, s)
      | Unparseable \<Rightarrow> (None, s)
      | Parsed parsed \<Rightarrow>
          (case get_insights parsed of
             None \<Rightarrow> (None, s)
           | Some insights \<Rightarrow>
               (let s0 = s\<lparr>importanceSinceLastReflection := Num 0\<rparr> in
                case slice2 insights of
                  None \<Rightarrow> (None, s0)
                | Some firstTwo \<Rightarrow>
                    (let (newMemories, s1) = add_insights eng cfg clock 0 firstTwo s0
                     in (Some newMemories, s1)))))"

definition reflect ::
  "Engine \<Rightarrow> MEMORY_CONFIG \<Rightarrow> (nat \<Rightarrow> int) \<Rightarrow> reply \<Rightarrow> json MemoryStream
     \<Rightarrow> json MemoryEntry list option \<times> json MemoryStream" where
  "reflect eng cfg clock r s =
     (if \<not> shouldReflect cfg s then (None, s) else reflect_resolve eng cfg clock r s)"

text \<open>A well-formed reply: an object whose \<^verbatim>\<open>insights\<close> is an array of strings.\<close>

fun is_JStr :: "json \<Rightarrow> bool" where
  "is_JStr (JStr _) = True"
| "is_JStr _ = False"

fun well_formed_reply :: "reply \<Rightarrow> bool" where
  "well_formed_reply (Parsed (JObj kvs)) =
     (case map_of kvs ''insights'' of Some (JArr xs) \<Rightarrow> list_all is_JStr xs | _ \<Rightarrow> False)"
| "well_formed_reply _ = False"

fun reply_insights :: "reply \<Rightarrow> json list" where
  "reply_insights (Parsed (JObj kvs)) =
     (case map_of kvs ''insights'' of Some (JArr xs) \<Rightarrow> xs | _ \<Rightarrow> [])"
| "reply_insights _ = []"

section \<open>The behaviour controller (src/ai/npcAI.ts)\<close>

subsection \<open>Vectors\<close>

text \<open>The operations of \<^verbatim>\<open>Vector3\<close> that the controller uses, over the reals.\<close>

datatype Vector3 = Vector3 (vx: real) (vy: real) (vz: real)

definition v_sub :: "Vector3 \<Rightarrow> Vector3 \<Rightarrow> Vector3" where
  "v_sub a b = Vector3 (vx a - vx b) (vy a - vy b) (vz a - vz b)"

definition v_add :: "Vector3 \<Rightarrow> Vector3 \<Rightarrow> Vector3" where
  "v_add a b = Vector3 (vx a + vx b) (vy a + vy b) (vz a + vz b)"

definition multiplyScalar :: "Vector3 \<Rightarrow> real \<Rightarrow> Vector3" where
  "multiplyScalar a k = Vector3 (vx a * k) (vy a * k) (vz a * k)"

definition v_length :: "Vector3 \<Rightarrow> real" where
  "v_length a = sqrt (vx a * vx a + vy a * vy a + vz a * vz a)"

definition normalize :: "Vector3 \<Rightarrow> Vector3" where
  "normalize a = multiplyScalar a (1 / (if v_length a = 0 then 1 else v_length a))"

definition distanceToSquared :: "Vector3 \<Rightarrow> Vector3 \<Rightarrow> real" where
  "distanceToSquared a b =
     (vx a - vx b) * (vx a - vx b) + (vy a - vy b) * (vy a - vy b) + (vz a - vz b) * (vz a - vz b)"

definition distanceTo :: "Vector3 \<Rightarrow> Vector3 \<Rightarrow> real" where
  "distanceTo a b = sqrt (distanceToSquared a b)"

definition flat :: "Vector3 \<Rightarrow> Vector3" where
  "flat a = Vector3 (vx a) 0 (vz a)"

subsection \<open>The world as the controller reads it\<close>

text \<open>
  Objects are referred to by reference; \<open>objs\<close> gives the state of every object at the
  time of a call. An object is an \<^verbatim>\<open>Entity\<close> (a \<^verbatim>\<open>Character\<close>, an \<^verbatim>\<open>Animal\<close> or another
  entity) or a plain \<^verbatim>\<open>Object3D\<close> of the scene. The classes are declared in files that are
  not at hand; the records hold the fields that the controller reads. \<open>mesh\<close> is the
  position of the mesh, \<open>None\<close> when the entity has no mesh.
\<close>

type_synonym ref = nat

datatype EntityClass = CharacterClass | AnimalClass | OtherEntity

record Entity =
  ent_id :: string
  ent_name :: string
  ent_class :: EntityClass
  isDead :: bool
  mesh :: "Vector3 option"
  lastAttacker :: "ref option"
  animalType :: string
  isAggressive :: bool
  maxHealth :: real
  profession :: string
  isPerformingAction :: bool
  aiController :: bool

record Object3D =
  obj_id :: "string option"
  obj_position :: Vector3
  visible :: bool
  isInteractable :: bool
  resource :: "string option"
  obj_health :: "real option"

datatype HeapObj = EntityObj Entity | SceneObj Object3D

record Game =
  game_entities :: "ref list"
  combatSystem :: bool
  tradingSystem :: bool
  activeCharacter :: "ref option"

text \<open>\<open>children\<close> are the direct children of the scene, \<open>descendants\<close> all objects below the
  scene in the order in which \<^verbatim>\<open>traverse\<close> visits them.\<close>

record Scene =
  children :: "ref list"
  descendants :: "ref list"

record CharacterSummary =
  cs_id :: string
  cs_health :: real
  cs_isDead :: bool

record AnimalSummary =
  as_id :: string
  as_health :: real
  as_isDead :: bool
  as_isAggressive :: bool

record Observation =
  self_health :: real
  nearbyCharacters :: "CharacterSummary list"
  nearbyAnimals :: "AnimalSummary list"

datatype CombatDisposition = aggressive | defensive | cautious

text \<open>
  \<^verbatim>\<open>REFLEX_CONFIG\<close>, \<^verbatim>\<open>PROFESSION_DISPOSITION\<close> and \<^verbatim>\<open>MEMORY_CONFIG.importanceThresholds\<close> are
  imported from src/core/constants.ts, which does not declare them in the file at hand:
  they are parameters.
\<close>

record REFLEX_CONFIG =
  reflexCooldown :: int
  fleeHealthThreshold :: real
  cautiousFightThreshold :: real
  fleeDuration :: real

record importanceThresholds =
  combat :: number
  conversation :: number
  trade :: number
  death :: number
  nearDeath :: number
  environmental :: number

text \<open>
  Everything a call reads from outside the controller: the objects, \<^verbatim>\<open>character.game\<close> and
  \<^verbatim>\<open>character.scene\<close>, the constants that are parameters, the engine that runs the memory store, the readings of
  the clock
  (\<open>reflexNow\<close> in \<open>evaluateReflex\<close>, \<open>currentTime\<close> in the tick, \<open>memoryNow\<close> in \<open>add\<close>), the
  values drawn from \<^verbatim>\<open>Math.random\<close>, the terrain height, the formatting of a number by
  \<^verbatim>\<open>toFixed(0)\<close>, the observation that \<^verbatim>\<open>updateObservation\<close> builds, and the objects as they
  are after the combat system has handled \<^verbatim>\<open>initiateAttack\<close>.
\<close>

record Env =
  objs :: "ref \<Rightarrow> HeapObj"
  objsAfterAttack :: "ref \<Rightarrow> HeapObj"
  game :: "Game option"
  scene :: "Scene option"
  reflexCfg :: REFLEX_CONFIG
  professionDisposition :: "string \<Rightarrow> CombatDisposition option"
  engine :: Engine
  memoryCfg :: MEMORY_CONFIG
  thresholds :: importanceThresholds
  reflexNow :: int
  currentTime :: int
  memoryNow :: int
  randomJitter :: real
  randomTimer :: real
  randomReset :: real
  randomAngle :: real
  randomDistance :: real
  randomApiTimer :: real
  getTerrainHeight :: "real \<Rightarrow> real \<Rightarrow> real"
  toFixed0 :: "real \<Rightarrow> string"
  builtObservation :: Observation

subsection \<open>The controller\<close>

datatype AIState = idle | roaming | deciding | movingToTarget | following | fleeing | dead
  | otherState string

datatype TargetAction = attack | chat | trade_action | follow

record PersistentAction =
  pa_type :: string
  targetType :: "string option"
  targetId :: "string option"

type_synonym InventoryItem = "string \<times> nat"

text \<open>Calls to the collaborators, in the order in which they are made.\<close>

datatype Effect =
    LookAt Vector3
  | UpdateIntentDisplay string
  | LogEvent string string ref
  | InitiateAttack ref
  | InterruptTarget ref
  | HandleChatResponse ref string
  | RequestTradeUI ref "InventoryItem list" "InventoryItem list"
  | SendToGemini

record MoveState =
  forward :: real
  right :: real
  jump :: bool
  sprint :: bool
  interact :: bool
  attack_intent :: bool

text \<open>
  The fields of \<^verbatim>\<open>AIController\<close>. \<open>chatDecisionTimer\<close> is true when the timer handle is not
  null. \<open>effects\<close> is not a field of the source: it records the calls to the collaborators.
\<close>

record AIController =
  character :: ref
  aiState :: AIState
  previousAiState :: AIState
  homePosition :: Vector3
  destination :: "Vector3 option"
  actionTimer :: real
  interactionDistance :: real
  attackDistance :: real
  followDistance :: real
  stoppingDistance :: real
  searchRadius :: real
  roamRadius :: real
  target :: "ref option"
  observation :: "Observation option"
  currentIntent :: string
  targetAction :: "TargetAction option"
  message :: "string option"
  tradeItemsGive :: "InventoryItem list"
  tradeItemsReceive :: "InventoryItem list"
  lastApiCallTime :: int
  apiCallCooldown :: int
  lastObservation :: "Observation option"
  persistentAction :: "PersistentAction option"
  chatDecisionTimer :: bool
  lastLoggedAttackTargetId :: "string option"
  memoryStream :: "json MemoryStream"
  lastReflexTime :: int
  isReflexAction :: bool
  effects :: "Effect list"

text \<open>\<^verbatim>\<open>AI_CONFIG\<close> of src/core/constants.ts.\<close>

record AI_CONFIG_T =
  cfg_apiCallCooldown :: int
  cfg_affectedCooldown :: int
  cfg_actionTimerBase :: real
  cfg_actionTimerVariance :: real
  cfg_chatDecisionDelay :: int
  cfg_interactionDistance :: real
  cfg_attackDistance :: real
  cfg_followDistance :: real
  cfg_stoppingDistance :: real

definition AI_CONFIG :: AI_CONFIG_T where
  "AI_CONFIG = \<lparr>cfg_apiCallCooldown = 30000, cfg_affectedCooldown = 15000,
     cfg_actionTimerBase = 5, cfg_actionTimerVariance = 5, cfg_chatDecisionDelay = 7000,
     cfg_interactionDistance = 3, cfg_attackDistance = 2, cfg_followDistance = 5,
     cfg_stoppingDistance = 3\<rparr>"

text \<open>
  The controller as the constructor and the field initialisers leave it, for a character
  with the given reference, position, search radius and roam radius.
\<close>

definition new_AIController :: "ref \<Rightarrow> Vector3 \<Rightarrow> real \<Rightarrow> real \<Rightarrow> AIController" where
  "new_AIController ch pos search roam =
     \<lparr>character = ch, aiState = idle, previousAiState = idle, homePosition = pos,
      destination = None, actionTimer = cfg_actionTimerBase AI_CONFIG,
      interactionDistance = cfg_interactionDistance AI_CONFIG,
      attackDistance = cfg_attackDistance AI_CONFIG,
      followDistance = cfg_followDistance AI_CONFIG,
      stoppingDistance = cfg_stoppingDistance AI_CONFIG,
      searchRadius = search, roamRadius = roam, target = None, observation = None,
      currentIntent = [], targetAction = None, message = None, tradeItemsGive = [],
      tradeItemsReceive = [], lastApiCallTime = 0,
      apiCallCooldown = cfg_apiCallCooldown AI_CONFIG, lastObservation = None,
      persistentAction = None, chatDecisionTimer = False, lastLoggedAttackTargetId = None,
      memoryStream = new_MemoryStream, lastReflexTime = 0, isReflexAction = False,
      effects = []\<rparr>"

subsection \<open>Reading objects\<close>

definition entity_of :: "HeapObj \<Rightarrow> Entity option" where
  "entity_of h = (case h of EntityObj e \<Rightarrow> Some e | SceneObj _ \<Rightarrow> None)"

definition object3d_of :: "HeapObj \<Rightarrow> Object3D option" where
  "object3d_of h = (case h of SceneObj ob \<Rightarrow> Some ob | EntityObj _ \<Rightarrow> None)"

text \<open>The character of the controller; the reference is to an entity.\<close>

definition self_entity :: "(ref \<Rightarrow> HeapObj) \<Rightarrow> AIController \<Rightarrow> Entity" where
  "self_entity heap c = the (entity_of (heap (character c)))"

text \<open>\<^verbatim>\<open>e.mesh!.position\<close>: the source asserts that the mesh is there.\<close>

definition mesh_position :: "Entity \<Rightarrow> Vector3" where
  "mesh_position e = the (mesh e)"

definition self_position :: "(ref \<Rightarrow> HeapObj) \<Rightarrow> AIController \<Rightarrow> Vector3" where
  "self_position heap c = mesh_position (self_entity heap c)"

text \<open>The entities of \<^verbatim>\<open>game.entities\<close> with their references, in order.\<close>

definition entities_of :: "(ref \<Rightarrow> HeapObj) \<Rightarrow> Game \<Rightarrow> (ref \<times> Entity) list" where
  "entities_of heap g =
     concat (map (\<lambda>r. case entity_of (heap r) of Some e \<Rightarrow> [(r, e)] | None \<Rightarrow> [])
               (game_entities g))"

definition disposition :: "Env \<Rightarrow> AIController \<Rightarrow> CombatDisposition" where
  "disposition env c =
     (case professionDisposition env (profession (self_entity (objs env) c)) of
        Some d \<Rightarrow> d | None \<Rightarrow> defensive)"

definition emit :: "Effect \<Rightarrow> AIController \<Rightarrow> AIController" where
  "emit e c = c\<lparr>effects := effects c @ [e]\<rparr>"

subsection \<open>Memories of actions\<close>

text \<open>A string is truthy when it is there and not empty.\<close>

definition truthy_string :: "string option \<Rightarrow> bool" where
  "truthy_string s = (case s of None \<Rightarrow> False | Some t \<Rightarrow> t \<noteq> [])"

definition encodeActionMemory :: "Env \<Rightarrow> string \<Rightarrow> string \<Rightarrow> string \<Rightarrow> AIController \<Rightarrow> AIController" where
  "encodeActionMemory env act targetName details c =
     (let typeMap = [(''attack'', (Episode, combat (thresholds env))),
                     (''chat'', (Episode, conversation (thresholds env))),
                     (''trade'', (Episode, trade (thresholds env))),
                     (''follow'', (Episode, conversation (thresholds env))),
                     (''death'', (Observation, death (thresholds env)))];
          config = (case map_of typeMap act of Some cf \<Rightarrow> cf | None \<Rightarrow> (Observation, num 0.3))
      in c\<lparr>memoryStream := snd (add (engine env) (memoryCfg env) (memoryNow env) (JStr details) (fst config)
                                    (snd config) [targetName] (memoryStream c))\<rparr>)"

subsection \<open>resetStateAfterAction and the searches\<close>

definition resetStateAfterAction :: "Env \<Rightarrow> AIController \<Rightarrow> AIController" where
  "resetStateAfterAction env c =
     c\<lparr>aiState := idle, target := None, targetAction := None, message := None,
       tradeItemsGive := [], tradeItemsReceive := [], persistentAction := None,
       isReflexAction := False, actionTimer := 3 + randomReset env * 4,
       lastLoggedAttackTargetId := None\<rparr>"

text \<open>
  One step of the loops of \<open>findNearestResource\<close> and \<open>findNearestAnimal\<close>: \<open>best\<close> is the
  nearest object so far with its squared distance, \<open>None\<close> while \<^verbatim>\<open>minDistanceSq\<close> is
  \<^verbatim>\<open>Infinity\<close>.
\<close>

definition closer :: "real \<Rightarrow> ref \<Rightarrow> real \<Rightarrow> (ref \<times> real) option \<Rightarrow> (ref \<times> real) option" where
  "closer searchRadiusSq r distanceSq best =
     (if distanceSq < searchRadiusSq \<and> (case best of None \<Rightarrow> True | Some (_, m) \<Rightarrow> distanceSq < m)
      then Some (r, distanceSq) else best)"

definition live_resource :: "string \<Rightarrow> Object3D \<Rightarrow> bool" where
  "live_resource resourceType ob \<longleftrightarrow>
     isInteractable ob \<and> resource ob = Some resourceType \<and> visible ob \<and>
     (case obj_health ob of Some h \<Rightarrow> h > 0 | None \<Rightarrow> False)"

definition findNearestResource ::
  "(ref \<Rightarrow> HeapObj) \<Rightarrow> Env \<Rightarrow> AIController \<Rightarrow> string \<Rightarrow> ref option" where
  "findNearestResource heap env c resourceType =
     (case scene env of
        None \<Rightarrow> None
      | Some sc \<Rightarrow>
          map_option fst
            (foldl (\<lambda>best r. case object3d_of (heap r) of
                       None \<Rightarrow> best
                     | Some child \<Rightarrow>
                         if live_resource resourceType child
                         then closer (searchRadius c * searchRadius c) r
                                (distanceToSquared (self_position heap c) (obj_position child)) best
                         else best)
               None (descendants sc)))"

definition live_animal :: "string \<Rightarrow> Entity \<Rightarrow> bool" where
  "live_animal ty e \<longleftrightarrow> ent_class e = AnimalClass \<and> animalType e = ty \<and> \<not> isDead e"

definition findNearestAnimal ::
  "(ref \<Rightarrow> HeapObj) \<Rightarrow> Env \<Rightarrow> AIController \<Rightarrow> string \<Rightarrow> ref option" where
  "findNearestAnimal heap env c ty =
     (case game env of
        None \<Rightarrow> None
      | Some g \<Rightarrow>
          map_option fst
            (foldl (\<lambda>best (r, e).
                       if live_animal ty e
                       then closer (searchRadius c * searchRadius c) r
                              (distanceToSquared (self_position heap c) (mesh_position e)) best
                       else best)
               None (entities_of heap g)))"

subsection \<open>handleTargetLostOrDepleted\<close>

text \<open>\<open>heap\<close> is the state of the objects at the time of the call.\<close>

definition handleTargetLostOrDepleted ::
  "(ref \<Rightarrow> HeapObj) \<Rightarrow> Env \<Rightarrow> AIController \<Rightarrow> AIController" where
  "handleTargetLostOrDepleted heap env c =
     (let c0 = c\<lparr>lastLoggedAttackTargetId := None\<rparr>;
          giveUp = resetStateAfterAction env (c0\<lparr>persistentAction := None\<rparr>)
      in case persistentAction c of
           None \<Rightarrow> resetStateAfterAction env c0
         | Some pa \<Rightarrow>
             if pa_type pa = ''attack'' then
               if truthy_string (targetId pa) then
                 (case (case game env of
                          None \<Rightarrow> None
                        | Some g \<Rightarrow> find (\<lambda>(r, e). Some (ent_id e) = targetId pa \<and> \<not> isDead e)
                                      (entities_of heap g)) of
                    Some (r, targetEntity) \<Rightarrow>
                      if distanceTo (self_position heap c) (mesh_position targetEntity) < searchRadius c
                      then c0\<lparr>target := Some r, aiState := movingToTarget\<rparr>
                      else giveUp
                  | None \<Rightarrow> giveUp)
               else if truthy_string (targetType pa) then
                 (let ty = the (targetType pa);
                      nextTarget = (if ty \<in> set [''wood'', ''stone'', ''herb'']
                                    then findNearestResource heap env c ty
                                    else findNearestAnimal heap env c ty)
                  in case nextTarget of
                       Some r \<Rightarrow> c0\<lparr>target := Some r, aiState := movingToTarget\<rparr>
                     | None \<Rightarrow> giveUp)
               else giveUp
             else resetStateAfterAction env c0)"

subsection \<open>The reflex layer\<close>

definition triggerAttack :: "Env \<Rightarrow> ref \<Rightarrow> string \<Rightarrow> AIController \<Rightarrow> AIController" where
  "triggerAttack env tgt intent c =
     (if \<not> isReflexAction c \<and> targetAction c \<noteq> None \<and> targetAction c \<noteq> Some attack then c
      else
        let te = the (entity_of (objs env tgt));
            c1 = c\<lparr>target := Some tgt, targetAction := Some attack,
                   persistentAction := Some \<lparr>pa_type = ''attack'', targetType = None,
                                              targetId = Some (ent_id te)\<rparr>,
                   aiState := movingToTarget, isReflexAction := True, currentIntent := intent\<rparr>;
            c2 = emit (UpdateIntentDisplay intent) c1;
            c3 = encodeActionMemory env ''attack'' (ent_name te)
                   (''I decided to fight '' @ ent_name te @ '': '' @ intent) c2
        in if game env \<noteq> None
           then emit (LogEvent ''reflex'' (ent_name (self_entity (objs env) c) @ '': '' @ intent) tgt) c3
           else c3)"

definition triggerFlee :: "Env \<Rightarrow> ref \<Rightarrow> string \<Rightarrow> AIController \<Rightarrow> AIController" where
  "triggerFlee env threat intent c =
     (let te = the (entity_of (objs env threat));
          selfPos = self_position (objs env) c;
          threatPos = mesh_position te;
          fleeDirection = normalize (flat (v_sub selfPos threatPos));
          fleeDistance = roamRadius c;
          dest = v_add selfPos (multiplyScalar fleeDirection fleeDistance);
          dest' = (if scene env \<noteq> None
                   then Vector3 (vx dest) (getTerrainHeight env (vx dest) (vz dest)) (vz dest)
                   else dest);
          c1 = c\<lparr>destination := Some dest', target := None, targetAction := None,
                 persistentAction := None, aiState := fleeing, isReflexAction := True,
                 actionTimer := fleeDuration (reflexCfg env), currentIntent := intent\<rparr>;
          c2 = emit (UpdateIntentDisplay intent) c1;
          c3 = encodeActionMemory env ''attack'' (ent_name te)
                 (''I fled from '' @ ent_name te @ '': '' @ intent) c2
      in if game env \<noteq> None
         then emit (LogEvent ''reflex'' (ent_name (self_entity (objs env) c) @ '': '' @ intent) threat) c3
         else c3)"

definition findAttacker :: "Env \<Rightarrow> AIController \<Rightarrow> ref option" where
  "findAttacker env c =
     (case lastAttacker (self_entity (objs env) c) of
        None \<Rightarrow> None
      | Some a \<Rightarrow>
          (case entity_of (objs env a) of
             None \<Rightarrow> None
           | Some ae \<Rightarrow>
               if \<not> isDead ae \<and> mesh ae \<noteq> None \<and>
                  distanceToSquared (self_position (objs env) c) (mesh_position ae)
                    < searchRadius c * searchRadius c
               then Some a else None))"

definition findNearestHostile :: "Env \<Rightarrow> AIController \<Rightarrow> ref option" where
  "findNearestHostile env c =
     (case game env of
        None \<Rightarrow> None
      | Some g \<Rightarrow>
          fst (foldl (\<lambda>(nearest, minDistSq) (r, e).
                        if r = character c \<or> isDead e \<or> mesh e = None then (nearest, minDistSq)
                        else if ent_class e = AnimalClass \<and> isAggressive e then
                          (let distSq = distanceToSquared (self_position (objs env) c) (mesh_position e)
                           in if distSq < minDistSq then (Some r, distSq) else (nearest, minDistSq))
                        else (nearest, minDistSq))
                 (None, searchRadius c * searchRadius c) (entities_of (objs env) g)))"

definition findNearestThreat :: "Env \<Rightarrow> AIController \<Rightarrow> ref option" where
  "findNearestThreat env c =
     (case findAttacker env c of Some a \<Rightarrow> Some a | None \<Rightarrow> findNearestHostile env c)"

record CombatEvent =
  ce_attacker :: ref
  victimName :: string
  victimIsCharacter :: bool

text \<open>A loop that may return from the function: \<open>None\<close> is "go on", \<open>Some r\<close> is "return r".\<close>

fun combat_among_characters ::
  "Env \<Rightarrow> AIController \<Rightarrow> CharacterSummary list \<Rightarrow> CharacterSummary list
     \<Rightarrow> CombatEvent option option" where
  "combat_among_characters env c earlier [] = None"
| "combat_among_characters env c earlier (cur # rest) =
     (case find (\<lambda>p. cs_id p = cs_id cur) earlier of
        None \<Rightarrow> combat_among_characters env c earlier rest
      | Some prev \<Rightarrow>
          if cs_health cur < cs_health prev \<and> \<not> cs_isDead cur then
            (case (case game env of
                     None \<Rightarrow> None
                   | Some g \<Rightarrow> find (\<lambda>(r, e). ent_id e = cs_id cur \<and> ent_class e = CharacterClass)
                                 (entities_of (objs env) g)) of
               None \<Rightarrow> combat_among_characters env c earlier rest
             | Some (_, victim) \<Rightarrow>
                 (case lastAttacker victim of
                    None \<Rightarrow> combat_among_characters env c earlier rest
                  | Some a \<Rightarrow>
                      if \<not> isDead (the (entity_of (objs env a))) then
                        (if a = character c then Some None
                         else Some (Some \<lparr>ce_attacker = a, victimName = cs_id cur,
                                          victimIsCharacter = True\<rparr>))
                      else combat_among_characters env c earlier rest))
          else combat_among_characters env c earlier rest)"

fun combat_among_animals ::
  "Env \<Rightarrow> AnimalSummary list \<Rightarrow> AnimalSummary list \<Rightarrow> CombatEvent option" where
  "combat_among_animals env earlier [] = None"
| "combat_among_animals env earlier (cur # rest) =
     (case find (\<lambda>p. as_id p = as_id cur) earlier of
        None \<Rightarrow> combat_among_animals env earlier rest
      | Some prev \<Rightarrow>
          if as_health cur < as_health prev \<and> \<not> as_isDead cur \<and> as_isAggressive cur then
            (case (case game env of
                     None \<Rightarrow> None
                   | Some g \<Rightarrow> find (\<lambda>(r, e). ent_id e = as_id cur \<and> ent_class e = AnimalClass)
                                 (entities_of (objs env) g)) of
               Some (r, animal) \<Rightarrow>
                 if \<not> isDead animal
                 then Some \<lparr>ce_attacker = r, victimName = ''someone'', victimIsCharacter = False\<rparr>
                 else combat_among_animals env earlier rest
             | None \<Rightarrow> combat_among_animals env earlier rest)
          else combat_among_animals env earlier rest)"

definition detectNearbyCombat :: "Env \<Rightarrow> AIController \<Rightarrow> CombatEvent option" where
  "detectNearbyCombat env c =
     (case (observation c, lastObservation c) of
        (Some obs, Some earlier) \<Rightarrow>
          (case combat_among_characters env c (nearbyCharacters earlier) (nearbyCharacters obs) of
             Some result \<Rightarrow> result
           | None \<Rightarrow> combat_among_animals env (nearbyAnimals earlier) (nearbyAnimals obs))
      | _ \<Rightarrow> None)"

text \<open>
  The four priorities of \<open>evaluateReflex\<close>, each \<open>Some\<close> of the controller when the function
  returns there and \<open>None\<close> when control falls through. \<open>c\<close> is the controller at the start
  of the call.
\<close>

definition healthRatio :: "Env \<Rightarrow> AIController \<Rightarrow> Observation \<Rightarrow> real" where
  "healthRatio env c obs = self_health obs / maxHealth (self_entity (objs env) c)"

definition reflex_low_health :: "Env \<Rightarrow> AIController \<Rightarrow> Observation \<Rightarrow> AIController option" where
  "reflex_low_health env c obs =
     (if healthRatio env c obs < fleeHealthThreshold (reflexCfg env) \<and> aiState c \<noteq> fleeing then
        (case findNearestThreat env c of
           Some threat \<Rightarrow>
             Some (triggerFlee env threat ''Low health, retreating!'' (c\<lparr>lastReflexTime := reflexNow env\<rparr>))
         | None \<Rightarrow> None)
      else None)"

definition reflex_under_attack :: "Env \<Rightarrow> AIController \<Rightarrow> Observation \<Rightarrow> AIController option" where
  "reflex_under_attack env c obs =
     (case lastObservation c of
        None \<Rightarrow> None
      | Some earlier \<Rightarrow>
          if self_health obs < self_health earlier then
            (case findAttacker env c of
               Some attacker \<Rightarrow>
                 (let c1 = c\<lparr>lastReflexTime := reflexNow env\<rparr> in
                  if disposition env c = cautious \<and>
                     healthRatio env c obs < cautiousFightThreshold (reflexCfg env)
                  then Some (triggerFlee env attacker ''I'm hurt, running away!'' c1)
                  else Some (triggerAttack env attacker ''Defending myself!'' c1))
             | None \<Rightarrow> None)
          else None)"

definition reflex_nearby_combat :: "Env \<Rightarrow> AIController \<Rightarrow> AIController option" where
  "reflex_nearby_combat env c =
     (case detectNearbyCombat env c of
        None \<Rightarrow> None
      | Some combatEvent \<Rightarrow>
          (let c1 = c\<lparr>lastReflexTime := reflexNow env\<rparr> in
           if disposition env c = aggressive then
             Some (triggerAttack env (ce_attacker combatEvent)
                     (''Helping '' @ victimName combatEvent @ ''!'') c1)
           else if disposition env c = defensive \<and> victimIsCharacter combatEvent then
             Some (triggerAttack env (ce_attacker combatEvent)
                     (''Protecting '' @ victimName combatEvent @ ''!'') c1)
           else if disposition env c = cautious then
             Some (triggerFlee env (ce_attacker combatEvent) ''Danger nearby, fleeing!'' c1)
           else Some c1))"

definition reflex_hostile_nearby :: "Env \<Rightarrow> AIController \<Rightarrow> AIController" where
  "reflex_hostile_nearby env c =
     (if disposition env c = aggressive \<and> aiState c \<noteq> movingToTarget then
        (case findNearestHostile env c of
           Some hostile \<Rightarrow>
             triggerAttack env hostile ''Engaging hostile creature!'' (c\<lparr>lastReflexTime := reflexNow env\<rparr>)
         | None \<Rightarrow> c)
      else if disposition env c = cautious \<and> aiState c = idle then
        (case findNearestHostile env c of
           Some hostile \<Rightarrow>
             if distanceToSquared (self_position (objs env) c)
                  (mesh_position (the (entity_of (objs env hostile))))
                < (searchRadius c * 0.5) * (searchRadius c * 0.5)
             then triggerFlee env hostile ''Hostile creature nearby!'' (c\<lparr>lastReflexTime := reflexNow env\<rparr>)
             else c
         | None \<Rightarrow> c)
      else c)"

definition evaluateReflex :: "Env \<Rightarrow> AIController \<Rightarrow> AIController" where
  "evaluateReflex env c =
     (if reflexNow env - lastReflexTime c < reflexCooldown (reflexCfg env) then c
      else case observation c of
        None \<Rightarrow> c
      | Some obs \<Rightarrow>
          if aiState c = deciding then c
          else case reflex_low_health env c obs of
            Some c' \<Rightarrow> c'
          | None \<Rightarrow>
              (case reflex_under_attack env c obs of
                 Some c' \<Rightarrow> c'
               | None \<Rightarrow>
                   (case reflex_nearby_combat env c of
                      Some c' \<Rightarrow> c'
                    | None \<Rightarrow> reflex_hostile_nearby env c)))"

subsection \<open>Applying a decision\<close>

definition fallbackToDefaultBehavior :: "Env \<Rightarrow> AIController \<Rightarrow> AIController" where
  "fallbackToDefaultBehavior env c =
     (let angle = randomAngle env * pi * 2;
          distance = randomDistance env * roamRadius c;
          dest = v_add (homePosition c) (Vector3 (cos angle * distance) 0 (sin angle * distance));
          dest' = (if scene env \<noteq> None
                   then Vector3 (vx dest) (getTerrainHeight env (vx dest) (vz dest)) (vz dest)
                   else dest)
      in emit (UpdateIntentDisplay ''Exploring'')
           (c\<lparr>aiState := roaming, destination := Some dest', target := None, targetAction := None,
              message := None, tradeItemsGive := [], tradeItemsReceive := [],
              persistentAction := None, isReflexAction := False, currentIntent := ''Exploring''\<rparr>)
           \<lparr>lastLoggedAttackTargetId := None\<rparr>)"

text \<open>The parsed reply of the decision service, with the fields that may be missing.\<close>

record ActionData =
  action :: string
  target_id :: "string option"
  ad_message :: "string option"
  give_items :: "InventoryItem list option"
  receive_items :: "InventoryItem list option"
  intent :: "string option"

definition find_live_character :: "Env \<Rightarrow> string option \<Rightarrow> (ref \<times> Entity) option" where
  "find_live_character env tid =
     (case game env of
        None \<Rightarrow> None
      | Some g \<Rightarrow> find (\<lambda>(r, e). Some (ent_id e) = tid \<and> ent_class e = CharacterClass \<and> \<not> isDead e)
                    (entities_of (objs env) g))"

text \<open>
  The target of an attack: first an entity with the identifier, then an interactable and
  visible child of the scene with it.
\<close>

definition find_attack_target :: "Env \<Rightarrow> string option \<Rightarrow> ref option" where
  "find_attack_target env tid =
     (case (case game env of
              None \<Rightarrow> None
            | Some g \<Rightarrow> find (\<lambda>(r, e). Some (ent_id e) = tid) (entities_of (objs env) g)) of
        Some (r, _) \<Rightarrow> Some r
      | None \<Rightarrow>
          (case scene env of
             None \<Rightarrow> None
           | Some sc \<Rightarrow>
               find (\<lambda>r. case object3d_of (objs env r) of
                            None \<Rightarrow> False
                          | Some child \<Rightarrow> obj_id child = tid \<and> isInteractable child \<and> visible child)
                 (children sc)))"

definition attack_found_target :: "Env \<Rightarrow> ref \<Rightarrow> AIController \<Rightarrow> AIController" where
  "attack_found_target env found c =
     (case objs env found of
        EntityObj e \<Rightarrow>
          if ent_class e = CharacterClass then
            c\<lparr>persistentAction := Some \<lparr>pa_type = ''attack'', targetType = None,
                                         targetId = Some (ent_id e)\<rparr>,
              target := Some found, targetAction := Some attack, aiState := movingToTarget\<rparr>
          else if ent_class e = AnimalClass \<and> animalType e \<noteq> [] then
            (let c1 = c\<lparr>persistentAction := Some \<lparr>pa_type = ''attack'',
                          targetType = Some (animalType e), targetId = None\<rparr>\<rparr>;
                 nearestTarget = (if animalType e \<in> set [''wood'', ''stone'', ''herb'']
                                  then findNearestResource (objs env) env c1 (animalType e)
                                  else findNearestAnimal (objs env) env c1 (animalType e))
             in case nearestTarget of
                  Some r \<Rightarrow> c1\<lparr>target := Some r, targetAction := Some attack, aiState := movingToTarget\<rparr>
                | None \<Rightarrow> handleTargetLostOrDepleted (objs env) env c1)
          else c\<lparr>target := Some found, targetAction := Some attack, aiState := movingToTarget\<rparr>
      | SceneObj ob \<Rightarrow>
          if truthy_string (resource ob) then
            (let ty = the (resource ob);
                 c1 = c\<lparr>persistentAction := Some \<lparr>pa_type = ''attack'', targetType = Some ty,
                                                    targetId = None\<rparr>\<rparr>;
                 nearestTarget = (if ty \<in> set [''wood'', ''stone'', ''herb'']
                                  then findNearestResource (objs env) env c1 ty
                                  else findNearestAnimal (objs env) env c1 ty)
             in case nearestTarget of
                  Some r \<Rightarrow> c1\<lparr>target := Some r, targetAction := Some attack, aiState := movingToTarget\<rparr>
                | None \<Rightarrow> handleTargetLostOrDepleted (objs env) env c1)
          else c\<lparr>target := Some found, targetAction := Some attack, aiState := movingToTarget\<rparr>)"

definition setActionFromAPI :: "Env \<Rightarrow> ActionData \<Rightarrow> AIController \<Rightarrow> AIController" where
  "setActionFromAPI env actionData c =
     (if isDead (self_entity (objs env) c) then c\<lparr>aiState := dead\<rparr>
      else
        let shown = (if truthy_string (intent actionData) then the (intent actionData)
                     else ''Thinking...'');
            c1 = emit (UpdateIntentDisplay shown) (c\<lparr>currentIntent := shown\<rparr>);
            c2 = c1\<lparr>destination := None, target := None, targetAction := None, message := None,
                    tradeItemsGive := [], tradeItemsReceive := [], persistentAction := None,
                    lastLoggedAttackTargetId := None, isReflexAction := False,
                    actionTimer := 5 + randomApiTimer env * 5\<rparr>
        in if action actionData = ''attack'' \<and> truthy_string (target_id actionData) then
             (case find_attack_target env (target_id actionData) of
                Some found \<Rightarrow> attack_found_target env found c2
              | None \<Rightarrow> handleTargetLostOrDepleted (objs env) env c2)
           else if action actionData = ''chat'' \<and> truthy_string (target_id actionData) then
             (case find_live_character env (target_id actionData) of
                Some (r, _) \<Rightarrow>
                  c2\<lparr>target := Some r, targetAction := Some chat,
                     message := Some (if truthy_string (ad_message actionData)
                                      then the (ad_message actionData) else ''...''),
                     aiState := movingToTarget\<rparr>
              | None \<Rightarrow> handleTargetLostOrDepleted (objs env) env c2)
           else if action actionData = ''trade'' \<and> truthy_string (target_id actionData) \<and>
                   give_items actionData \<noteq> None \<and> receive_items actionData \<noteq> None then
             (case find_live_character env (target_id actionData) of
                Some (r, _) \<Rightarrow>
                  if Some r = (case game env of None \<Rightarrow> None | Some g \<Rightarrow> activeCharacter g) then
                    c2\<lparr>target := Some r, targetAction := Some trade_action,
                       tradeItemsGive := the (give_items actionData),
                       tradeItemsReceive := the (receive_items actionData),
                       aiState := movingToTarget\<rparr>
                  else fallbackToDefaultBehavior env c2
              | None \<Rightarrow> handleTargetLostOrDepleted (objs env) env c2)
           else if action actionData = ''follow'' \<and> truthy_string (target_id actionData) then
             (case find_live_character env (target_id actionData) of
                Some (r, _) \<Rightarrow> c2\<lparr>target := Some r, targetAction := Some follow, aiState := movingToTarget\<rparr>
              | None \<Rightarrow> fallbackToDefaultBehavior env c2)
           else fallbackToDefaultBehavior env c2)"

subsection \<open>decideNextAction\<close>

fun add_appeared ::
  "Env \<Rightarrow> CharacterSummary list \<Rightarrow> CharacterSummary list \<Rightarrow> json MemoryStream \<Rightarrow> json MemoryStream" where
  "add_appeared env earlier [] m = m"
| "add_appeared env earlier (ch # rest) m =
     add_appeared env earlier rest
       (if cs_id ch \<notin> set (map cs_id earlier) \<and> \<not> cs_isDead ch
        then snd (add (engine env) (memoryCfg env) (memoryNow env) (JStr (cs_id ch @ '' appeared nearby''))
                    Observation (environmental (thresholds env)) [cs_id ch] m)
        else m)"

fun add_died ::
  "Env \<Rightarrow> CharacterSummary list \<Rightarrow> CharacterSummary list \<Rightarrow> json MemoryStream \<Rightarrow> json MemoryStream" where
  "add_died env earlier [] m = m"
| "add_died env earlier (ch # rest) m =
     add_died env earlier rest
       (case find (\<lambda>p. cs_id p = cs_id ch) earlier of
          Some prev \<Rightarrow>
            if \<not> cs_isDead prev \<and> cs_isDead ch
            then snd (add (engine env) (memoryCfg env) (memoryNow env) (JStr (cs_id ch @ '' died nearby''))
                        Observation (combat (thresholds env)) [cs_id ch] m)
            else m
        | None \<Rightarrow> m)"

definition encodeObservationMemories :: "Env \<Rightarrow> AIController \<Rightarrow> AIController" where
  "encodeObservationMemories env c =
     (case (observation c, lastObservation c) of
        (Some obs, Some earlier) \<Rightarrow>
          (let attacker = lastAttacker (self_entity (objs env) c);
               attackerName =
                 (case attacker of
                    None \<Rightarrow> ''something''
                  | Some a \<Rightarrow> (let n = ent_name (the (entity_of (objs env a)))
                              in if n = [] then ''something'' else n));
               involved = (if attacker \<noteq> None then [attackerName] else []);
               m0 = memoryStream c;
               m1 = (if self_health obs < self_health earlier then
                       (let damage = self_health earlier - self_health obs;
                            hit = snd (add (engine env) (memoryCfg env) (memoryNow env)
                                    (JStr (''I was hit by '' @ attackerName @ '' and lost ''
                                           @ toFixed0 env damage @ '' health (now ''
                                           @ toFixed0 env (self_health obs) @ '')''))
                                    Observation (combat (thresholds env)) involved m0)
                        in if self_health obs < self_health obs * 0.3 \<and>
                              self_health earlier \<ge> self_health obs * 0.3
                           then snd (add (engine env) (memoryCfg env) (memoryNow env)
                                  (JStr (''I nearly died from '' @ attackerName @ '''s attack''))
                                  Observation (nearDeath (thresholds env)) involved hit)
                           else hit)
                     else m0);
               m2 = add_appeared env (nearbyCharacters earlier) (nearbyCharacters obs) m1;
               m3 = add_died env (nearbyCharacters earlier) (nearbyCharacters obs) m2
           in c\<lparr>memoryStream := m3\<rparr>)
      | _ \<Rightarrow> c)"

text \<open>
  \<open>decideNextAction\<close> up to the point where it awaits the reply; the request is the effect
  \<open>SendToGemini\<close>. \<open>decideNextAction_resolve\<close> is the rest of the function, run when the
  reply arrives, in the world as it is then.
\<close>

definition decideNextAction :: "Env \<Rightarrow> AIController \<Rightarrow> AIController" where
  "decideNextAction env c =
     (if isDead (self_entity (objs env) c) then c\<lparr>aiState := dead\<rparr>
      else
        let c1 = encodeObservationMemories env c
        in if aiState c1 = following \<or> aiState c1 = deciding then c1
           else emit SendToGemini (c1\<lparr>aiState := deciding\<rparr>))"

datatype DecisionReply = CallFailed | EmptyResponse | ParseFailed | Decision ActionData

definition decision_failed :: "Env \<Rightarrow> AIController \<Rightarrow> AIController" where
  "decision_failed env c =
     (if \<not> isDead (self_entity (objs env) c) then fallbackToDefaultBehavior env c
      else c\<lparr>aiState := dead\<rparr>)"

definition reflection_trigger :: "Env \<Rightarrow> AIController \<Rightarrow> AIController" where
  "reflection_trigger env c =
     (if shouldReflect (memoryCfg env) (memoryStream c) then emit SendToGemini c else c)"

definition decideNextAction_resolve :: "Env \<Rightarrow> DecisionReply \<Rightarrow> AIController \<Rightarrow> AIController" where
  "decideNextAction_resolve env reply c =
     (case reply of
        CallFailed \<Rightarrow> decision_failed env c
      | EmptyResponse \<Rightarrow>
          reflection_trigger env (fallbackToDefaultBehavior env (c\<lparr>lastApiCallTime := currentTime env\<rparr>))
      | ParseFailed \<Rightarrow> decision_failed env (c\<lparr>lastApiCallTime := currentTime env\<rparr>)
      | Decision actionData \<Rightarrow>
          reflection_trigger env (setActionFromAPI env actionData (c\<lparr>lastApiCallTime := currentTime env\<rparr>)))"

subsection \<open>computeAIMoveState\<close>

definition still :: MoveState where
  "still = \<lparr>forward = 0, right = 0, jump = False, sprint = False, interact = False,
     attack_intent = False\<rparr>"

text \<open>The distance at which the action on the target starts.\<close>

definition requiredDistance :: "AIController \<Rightarrow> TargetAction \<Rightarrow> real" where
  "requiredDistance c act =
     (if act = attack then attackDistance c
      else if act = follow then followDistance c
      else interactionDistance c)"

text \<open>
  Modelled from the spec: \<^verbatim>\<open>updateObservation\<close> of src/ai/api.ts, which is not at hand. It
  rebuilds the observation from the world and keeps the previous one.
\<close>

definition updateObservation :: "Env \<Rightarrow> AIController \<Rightarrow> AIController" where
  "updateObservation env c =
     c\<lparr>lastObservation := observation c, observation := Some (builtObservation env)\<rparr>"

definition target_position :: "(ref \<Rightarrow> HeapObj) \<Rightarrow> ref \<Rightarrow> Vector3" where
  "target_position heap t =
     (case heap t of EntityObj e \<Rightarrow> mesh_position e | SceneObj ob \<Rightarrow> obj_position ob)"

definition target_valid :: "(ref \<Rightarrow> HeapObj) \<Rightarrow> ref \<Rightarrow> bool" where
  "target_valid heap t =
     (case heap t of EntityObj e \<Rightarrow> \<not> isDead e | SceneObj ob \<Rightarrow> visible ob \<and> isInteractable ob)"

definition is_character :: "(ref \<Rightarrow> HeapObj) \<Rightarrow> ref \<Rightarrow> bool" where
  "is_character heap t =
     (case heap t of EntityObj e \<Rightarrow> ent_class e = CharacterClass | SceneObj _ \<Rightarrow> False)"

text \<open>Walking towards a point: look along the flat direction and go forward.\<close>

definition walk_towards :: "Env \<Rightarrow> Vector3 \<Rightarrow> AIController \<Rightarrow> AIController" where
  "walk_towards env direction c =
     emit (LookAt (v_add (self_position (objs env) c) (normalize direction))) c"

definition at_target :: "Env \<Rightarrow> ref \<Rightarrow> TargetAction \<Rightarrow> real \<Rightarrow> AIController \<Rightarrow> AIController" where
  "at_target env t act distance c =
     (let c1 = emit (LookAt (target_position (objs env) t)) c;
          self = self_entity (objs env) c;
          g = game env
      in if act = attack then
           (let strikes = ((case g of None \<Rightarrow> False | Some gm \<Rightarrow> combatSystem gm)
                            \<and> \<not> isPerformingAction self);
                c2 = (if strikes then emit (InitiateAttack t) c1 else c1);
                heap = (if strikes then objsAfterAttack env else objs env);
                targetStillValid = target_valid heap t
            in if \<not> targetStillValid \<or> distance > searchRadius c
               then handleTargetLostOrDepleted heap env c2 else c2)
         else if act = chat \<and> truthy_string (message c) \<and> \<not> chatDecisionTimer c
                 \<and> is_character (objs env) t then
           (let te = the (entity_of (objs env t));
                msg = the (message c);
                c2 = (if aiController te then emit (InterruptTarget t) c1 else c1);
                c3 = emit (UpdateIntentDisplay msg) c2;
                c4 = (if g \<noteq> None
                      then emit (LogEvent ''chat''
                             (ent_name self @ '' said \"'' @ msg @ ''\" to '' @ ent_name te @ ''.'') t) c3
                      else c3);
                c5 = encodeActionMemory env ''chat'' (ent_name te)
                       (''I said \"'' @ msg @ ''\" to '' @ ent_name te) c4;
                c6 = emit (HandleChatResponse t msg) c5
            in resetStateAfterAction env c6)
         else if act = trade_action \<and> is_character (objs env) t
                 \<and> (case g of None \<Rightarrow> False | Some gm \<Rightarrow> tradingSystem gm) then
           (let te = the (entity_of (objs env t));
                c2 = emit (RequestTradeUI t (tradeItemsGive c) (tradeItemsReceive c)) c1;
                c3 = encodeActionMemory env ''trade'' (ent_name te)
                       (''I traded with '' @ ent_name te) c2
            in resetStateAfterAction env c3)
         else if act = follow then c1\<lparr>aiState := following, destination := None\<rparr>
         else c1)"

text \<open>The \<^verbatim>\<open>switch\<close> on the state: the movement command and the controller after it.\<close>

definition dispatch :: "Env \<Rightarrow> AIController \<Rightarrow> MoveState \<times> AIController" where
  "dispatch env c =
     (case aiState c of
        deciding \<Rightarrow> (still, c)
      | dead \<Rightarrow> (still, c)
      | idle \<Rightarrow>
          (case destination c of
             Some dest \<Rightarrow>
               (let direction = flat (v_sub dest (self_position (objs env) c)) in
                if v_length direction > stoppingDistance c
                then (still\<lparr>forward := 1\<rparr>, walk_towards env direction c)
                else (still, c\<lparr>aiState := idle, destination := None\<rparr>))
           | None \<Rightarrow> (still, c\<lparr>aiState := idle\<rparr>))
      | roaming \<Rightarrow>
          (case destination c of
             Some dest \<Rightarrow>
               (let direction = flat (v_sub dest (self_position (objs env) c)) in
                if v_length direction > stoppingDistance c
                then (still\<lparr>forward := 1\<rparr>, walk_towards env direction c)
                else (still, c\<lparr>aiState := idle, destination := None\<rparr>))
           | None \<Rightarrow> (still, c\<lparr>aiState := idle\<rparr>))
      | movingToTarget \<Rightarrow>
          (case (target c, targetAction c) of
             (Some t, Some act) \<Rightarrow>
               if \<not> target_valid (objs env) t
               then (still, handleTargetLostOrDepleted (objs env) env c)
               else
                 (let direction = flat (v_sub (target_position (objs env) t)
                                          (self_position (objs env) c));
                      distance = v_length direction
                  in if distance > requiredDistance c act
                     then (still\<lparr>forward := 1\<rparr>, walk_towards env direction c)
                     else (still, at_target env t act distance c))
           | _ \<Rightarrow> (still, resetStateAfterAction env c))
      | following \<Rightarrow>
          (case target c of
             None \<Rightarrow> (still, resetStateAfterAction env c)
           | Some t \<Rightarrow>
               if \<not> is_character (objs env) t \<or> isDead (the (entity_of (objs env t)))
               then (still, resetStateAfterAction env c)
               else
                 (let targetPositionFollow = target_position (objs env) t;
                      distanceFollow = v_length (flat (v_sub targetPositionFollow
                                                         (self_position (objs env) c)))
                  in if distanceFollow > followDistance c * 5
                     then (still, resetStateAfterAction env c)
                     else (if distanceFollow > followDistance c then still\<lparr>forward := 1\<rparr> else still,
                           emit (LookAt targetPositionFollow) c)))
      | fleeing \<Rightarrow>
          (case destination c of
             Some dest \<Rightarrow>
               (let fleeDir = flat (v_sub dest (self_position (objs env) c)) in
                if v_length fleeDir > stoppingDistance c
                then (still\<lparr>forward := 1, sprint := True\<rparr>, walk_towards env fleeDir c)
                else (still, resetStateAfterAction env c))
           | None \<Rightarrow> (still, resetStateAfterAction env c))
      | otherState _ \<Rightarrow> (still, c\<lparr>aiState := idle\<rparr>))"

text \<open>The decision timer of the tick.\<close>

definition run_timer :: "Env \<Rightarrow> real \<Rightarrow> AIController \<Rightarrow> AIController" where
  "run_timer env deltaTime c =
     (let c1 = c\<lparr>actionTimer := actionTimer c - deltaTime\<rparr>;
          timeSinceLastCall = currentTime env - lastApiCallTime c1;
          canCallApi = (real_of_int timeSinceLastCall
                          \<ge> real_of_int (apiCallCooldown c1) + (randomJitter env * 10000 - 5000))
      in if actionTimer c1 \<le> 0 \<and> \<not> chatDecisionTimer c1 then
           (let c2 = c1\<lparr>actionTimer := cfg_actionTimerBase AI_CONFIG
                                          + randomTimer env * cfg_actionTimerVariance AI_CONFIG\<rparr>
            in if canCallApi then (decideNextAction env c2)\<lparr>lastApiCallTime := currentTime env\<rparr>
               else c2)
         else c1)"

definition computeAIMoveState :: "Env \<Rightarrow> real \<Rightarrow> AIController \<Rightarrow> MoveState \<times> AIController" where
  "computeAIMoveState env deltaTime c =
     (if isDead (self_entity (objs env) c) then (still, c\<lparr>aiState := dead\<rparr>)
      else
        let c1 = (if game env \<noteq> None then updateObservation env c else c);
            c2 = evaluateReflex env c1;
            c3 = run_timer env deltaTime c2;
            (moveState, c4) = dispatch env c3
        in (moveState, c4\<lparr>previousAiState := aiState c4\<rparr>))"

section \<open>Predicates and examples\<close>

subsection \<open>Predicates used to state the properties\<close>

text \<open>
  \<open>sort_ok cmp R y x\<close>: for \<open>y\<close> before \<open>x\<close> in the input, the order \<open>R\<close> agrees with where
  the comparator puts the pair.
\<close>

definition sort_ok :: "('a \<Rightarrow> 'a \<Rightarrow> real) \<Rightarrow> ('a \<Rightarrow> 'a \<Rightarrow> bool) \<Rightarrow> 'a \<Rightarrow> 'a \<Rightarrow> bool" where
  "sort_ok cmp R y x \<longleftrightarrow> (if cmp y x > 0 then R x y else R y x)"

definition trans_on :: "'a set \<Rightarrow> ('a \<Rightarrow> 'a \<Rightarrow> bool) \<Rightarrow> bool" where
  "trans_on S R \<longleftrightarrow> (\<forall>a\<in>S. \<forall>b\<in>S. \<forall>c\<in>S. R a b \<longrightarrow> R b c \<longrightarrow> R a c)"



text \<open>\<open>slice_count e n\<close>: how many elements \<^verbatim>\<open>slice(0, e)\<close> takes from an array of length \<open>n\<close>.\<close>

definition slice_count :: "number \<Rightarrow> nat \<Rightarrow> nat" where
  "slice_count e n =
     (case e of
        NaN \<Rightarrow> 0
      | PInfinity \<Rightarrow> n
      | NInfinity \<Rightarrow> 0
      | Num r \<Rightarrow> if trunc r < 0 then n - nat (- trunc r) else min (nat (trunc r)) n)"

text \<open>\<open>ids_fresh\<close>: the identifiers of the stored entries are pairwise different and below
  the counter, as they are in every store that \<open>add\<close> has built from the empty one.\<close>

definition ids_fresh :: "'c MemoryStream \<Rightarrow> bool" where
  "ids_fresh s \<longleftrightarrow> distinct (map mid (memories s)) \<and> (\<forall>m\<in>set (memories s). mid m < nextId s)"


definition reflection_entry :: "nat \<Rightarrow> json \<Rightarrow> int \<Rightarrow> json MemoryEntry" where
  "reflection_entry i c t = \<lparr>mid = i, content = c, mtype = Reflection, timestamp = t,
     lastAccessed = t, importance = num 0.8, entities = []\<rparr>"

definition deliberate_other :: "AIController \<Rightarrow> bool" where
  "deliberate_other c \<longleftrightarrow> \<not> isReflexAction c \<and> targetAction c \<in> {Some chat, Some trade_action, Some follow}"

definition reflex_gate :: "Env \<Rightarrow> AIController \<Rightarrow> bool" where
  "reflex_gate env c \<longleftrightarrow>
     reflexNow env - lastReflexTime c \<ge> reflexCooldown (reflexCfg env) \<and> observation c \<noteq> None \<and>
     aiState c \<noteq> deciding"








text \<open>
  An example engine. Its \<^verbatim>\<open>Math.pow\<close> is 1 at the exponent 0 and the rounded real power
  of a positive base at another finite exponent; the examples use it at the exponents 0
  and 1 only, where the power is 1 and the base. Its sort is straight insertion, whatever
  the comparator.
\<close>

definition ex_pow :: "number \<Rightarrow> number \<Rightarrow> number" where
  "ex_pow base exponent =
     (case (base, exponent) of
        (Num b, Num e) \<Rightarrow> if e = 0 then Num 1 else if 0 < b then num (b powr e) else NaN
      | _ \<Rightarrow> NaN)"

definition ex_engine :: Engine where
  "ex_engine = \<lparr>Math_pow = ex_pow,
     sort_order = (\<lambda>cmp n. js_sort (\<lambda>i j. sort_value (cmp i j)) [0..<n])\<rparr>"

text \<open>Example stores.\<close>

definition ex_cfg :: MEMORY_CONFIG where
  "ex_cfg = \<lparr>maxMemories = 2, retrieveLimit = Num 5, decayRate = num 0.995,
     reflectionThreshold = Num 3, reflectionInputCount = 10\<rparr>"

definition ex_entry :: "nat \<Rightarrow> MemoryType \<Rightarrow> int \<Rightarrow> number \<Rightarrow> string MemoryEntry" where
  "ex_entry i ty t imp = \<lparr>mid = i, content = ''x'', mtype = ty, timestamp = t,
     lastAccessed = t, importance = imp, entities = []\<rparr>"

text \<open>Three observations whose importances fall by less than the tolerance from one to the
  next, the oldest first.\<close>

definition ex_first :: "string MemoryEntry" where
  "ex_first = ex_entry 0 Observation 1 (num 0.16)"

definition ex_second :: "string MemoryEntry" where
  "ex_second = ex_entry 1 Observation 2 (num 0.08)"

definition ex_third :: "string MemoryEntry" where
  "ex_third = ex_entry 2 Observation 3 (Num 0)"

definition ex_cyclic :: "string MemoryStream" where
  "ex_cyclic = \<lparr>memories = [ex_first, ex_second, ex_third],
     importanceSinceLastReflection = num 0.24, nextId = 3\<rparr>"

text \<open>A reflection and two observations.\<close>

definition ex_insight :: "string MemoryEntry" where
  "ex_insight = ex_entry 0 Reflection 1 (num 0.8)"

definition ex_minor :: "string MemoryEntry" where
  "ex_minor = ex_entry 1 Observation 2 (num 0.3)"

definition ex_major :: "string MemoryEntry" where
  "ex_major = ex_entry 2 Observation 3 (num 0.9)"

definition ex_mixed :: "string MemoryStream" where
  "ex_mixed = \<lparr>memories = [ex_insight, ex_minor, ex_major],
     importanceSinceLastReflection = Num 2, nextId = 3\<rparr>"

definition ex_cfg200 :: MEMORY_CONFIG where
  "ex_cfg200 = \<lparr>maxMemories = 200, retrieveLimit = Num 5, decayRate = num 0.995,
     reflectionThreshold = Num 3, reflectionInputCount = 10\<rparr>"

definition ex_obs :: "nat \<Rightarrow> json MemoryEntry" where
  "ex_obs i = \<lparr>mid = i, content = JStr ''seen'', mtype = Observation, timestamp = int i,
     lastAccessed = int i, importance = num 0.6, entities = []\<rparr>"

definition ex_five :: "json MemoryStream" where
  "ex_five = \<lparr>memories = [ex_obs 0, ex_obs 1, ex_obs 2, ex_obs 3, ex_obs 4],
     importanceSinceLastReflection = Num 3, nextId = 5\<rparr>"

definition ex_good_reply :: reply where
  "ex_good_reply = Parsed (JObj [(''insights'', JArr [JStr ''a'', JStr ''b''])])"

definition ex_clock :: "nat \<Rightarrow> int" where
  "ex_clock k = 100 + int k"

text \<open>Three entries; the first two were last read an hour before the third.\<close>

definition ex_sighting :: "string MemoryEntry" where
  "ex_sighting = \<lparr>mid = 0, content = ''A wolf appeared'', mtype = Observation, timestamp = 0,
     lastAccessed = 0, importance = num 0.2, entities = [''Wolf'']\<rparr>"

definition ex_trade :: "string MemoryEntry" where
  "ex_trade = \<lparr>mid = 1, content = ''I traded with Bob'', mtype = Episode, timestamp = 0,
     lastAccessed = 0, importance = num 0.5, entities = [''Bob'']\<rparr>"

definition ex_attack :: "string MemoryEntry" where
  "ex_attack = \<lparr>mid = 2, content = ''Wolf attacked me'', mtype = Observation, timestamp = 0,
     lastAccessed = 3600000, importance = num 0.9, entities = []\<rparr>"

definition ex_three :: "string MemoryStream" where
  "ex_three = \<lparr>memories = [ex_sighting, ex_trade, ex_attack],
     importanceSinceLastReflection = num 1.6, nextId = 3\<rparr>"

text \<open>An example world: the character 0, the character 1, the aggressive wolf 2; every
  other reference is to a felled tree.\<close>

definition ex_entity :: "string \<Rightarrow> EntityClass \<Rightarrow> bool \<Rightarrow> Vector3 \<Rightarrow> ref option \<Rightarrow> Entity" where
  "ex_entity n cls d pos att =
     \<lparr>ent_id = n, ent_name = n, ent_class = cls, isDead = d, mesh = Some pos, lastAttacker = att,
      animalType = (if cls = AnimalClass then ''wolf'' else []), isAggressive = (cls = AnimalClass),
      maxHealth = 100, profession = ''farmer'', isPerformingAction = False, aiController = True\<rparr>"

definition ex_objs :: "bool \<Rightarrow> ref \<Rightarrow> HeapObj" where
  "ex_objs selfDead r =
     (if r = 0 then EntityObj (ex_entity ''npc'' CharacterClass selfDead (Vector3 0 0 0) (Some 2))
      else if r = 1 then EntityObj (ex_entity ''player'' CharacterClass False (Vector3 10 0 0) None)
      else if r = 2 then EntityObj (ex_entity ''wolf'' AnimalClass False (Vector3 3 0 4) None)
      else SceneObj \<lparr>obj_id = Some ''tree'', obj_position = Vector3 1 0 1, visible = False,
             isInteractable = False, resource = Some ''wood'', obj_health = Some 0\<rparr>)"

definition ex_game :: Game where
  "ex_game = \<lparr>game_entities = [0, 1, 2], combatSystem = True, tradingSystem = True,
     activeCharacter = Some 1\<rparr>"

definition ex_env :: "bool \<Rightarrow> Env" where
  "ex_env selfDead =
     \<lparr>objs = ex_objs selfDead, objsAfterAttack = ex_objs selfDead,
      game = Some ex_game,
      scene = None,
      reflexCfg = \<lparr>reflexCooldown = 2000, fleeHealthThreshold = 0.2,
                    cautiousFightThreshold = 0.5, fleeDuration = 5\<rparr>,
      professionDisposition = (\<lambda>p. None),
      engine = ex_engine,
      memoryCfg = ex_cfg200,
      thresholds = \<lparr>combat = num 0.7, conversation = num 0.5, trade = num 0.5, death = num 0.9,
                     nearDeath = num 0.9, environmental = num 0.3\<rparr>,
      reflexNow = 10000, currentTime = 10000, memoryNow = 10000,
      randomJitter = 0.5, randomTimer = 0.5, randomReset = 0.5, randomAngle = 0,
      randomDistance = 0.5, randomApiTimer = 0.5,
      getTerrainHeight = (\<lambda>x z. 0), toFixed0 = (\<lambda>x. ''0''),
      builtObservation = \<lparr>self_health = 10, nearbyCharacters = [], nearbyAnimals = []\<rparr>\<rparr>"

definition ex_ctrl :: AIController where
  "ex_ctrl = new_AIController 0 (Vector3 0 0 0) 15 20"

text \<open>The controller on its way to chat with the player, as a decision has set it.\<close>

definition ex_chatting :: AIController where
  "ex_chatting = ex_ctrl\<lparr>aiState := movingToTarget, target := Some 1, targetAction := Some chat,
     message := Some ''Hello'',
     observation := Some \<lparr>self_health = 10, nearbyCharacters = [], nearbyAnimals = []\<rparr>\<rparr>"

definition ex_dead :: AIController where
  "ex_dead = ex_ctrl\<lparr>aiState := dead, previousAiState := dead\<rparr>"

definition ex_deciding :: AIController where
  "ex_deciding = ex_chatting\<lparr>aiState := deciding\<rparr>"




section \<open>Properties of the memory store\<close>

subsection \<open>Rounding\<close>







lemma roundTiesToEven_ge: "\<lfloor>x\<rfloor> \<le> roundTiesToEven x"
  by (simp add: roundTiesToEven_def Let_def)

lemma roundTiesToEven_le: "roundTiesToEven x \<le> \<lceil>x\<rceil>"
  unfolding roundTiesToEven_def Let_def by (auto simp: ceiling_def) linarith+

lemma powi_less_cancel: "(2::real) powi m < 2 powi n \<Longrightarrow> m < n"
  using power_int_increasing [of n m "2::real"] by (cases "m < n") auto

lemma binade_up_eq:
  "2 powi e \<le> a \<Longrightarrow> a < 2 powi (e + 1) \<Longrightarrow> e0 \<le> e \<Longrightarrow> e \<le> e0 + int k \<Longrightarrow> binade_up k a e0 = e"
proof (induction k a e0 rule: binade_up.induct)
  case (1 a e0)
  then show ?case by simp
next
  case (2 k a e0)
  show ?case
  proof (cases "a < 2 powi (e0 + 1)")
    case True
    have "(2::real) powi e < 2 powi (e0 + 1)"
      using "2.prems"(1) True by linarith
    then have "e < e0 + 1"
      by (rule powi_less_cancel)
    then show ?thesis
      using True "2.prems"(3) by simp
  next
    case False
    then have "(2::real) powi (e0 + 1) < 2 powi (e + 1)"
      using "2.prems"(2) by linarith
    then have "e0 + 1 < e + 1"
      by (rule powi_less_cancel)
    then show ?thesis
      using False "2.IH" "2.prems" by simp
  qed
qed

lemma binade_down_eq:
  "2 powi e \<le> a \<Longrightarrow> a < 2 powi (e + 1) \<Longrightarrow> e \<le> e0 \<Longrightarrow> e0 - int k \<le> e \<Longrightarrow> binade_down k a e0 = e"
proof (induction k a e0 rule: binade_down.induct)
  case (1 a e0)
  then show ?case by simp
next
  case (2 k a e0)
  show ?case
  proof (cases "2 powi e0 \<le> a")
    case True
    then have "(2::real) powi e0 < 2 powi (e + 1)"
      using "2.prems"(2) by linarith
    then have "e0 < e + 1"
      by (rule powi_less_cancel)
    then show ?thesis
      using True "2.prems"(3) by simp
  next
    case False
    then have "(2::real) powi e < 2 powi e0"
      using "2.prems"(1) by linarith
    then have "e < e0"
      by (rule powi_less_cancel)
    then show ?thesis
      using False "2.IH" "2.prems" by simp
  qed
qed

lemma binade_eq:
  assumes "2 powi e \<le> a" and "a < 2 powi (e + 1)" and "- 1022 \<le> e" and "e \<le> 1023"
  shows "binade a = e"
proof (cases "1 \<le> a")
  case True
  then have "(2::real) powi 0 < 2 powi (e + 1)"
    using assms(2) by simp
  then have "0 < e + 1"
    by (rule powi_less_cancel)
  then show ?thesis
    using True assms binade_up_eq [of e a 0 1023] by (simp add: binade_def)
next
  case False
  then have "(2::real) powi e < 2 powi 0"
    using assms(1) by simp
  then have "e < 0"
    by (rule powi_less_cancel)
  then show ?thesis
    using False assms binade_down_eq [of e a "- 1" 1021] by (simp add: binade_def)
qed

text \<open>
  The double nearest to a real \<open>x\<close> with \<open>2 ^ e \<le> \<bar>x\<bar> < 2 ^ (e + 1)\<close>: the examples are
  evaluated with this rule.
\<close>

lemma num_eval:
  assumes "2 powi e \<le> \<bar>x\<bar>" and "\<bar>x\<bar> < 2 powi (e + 1)" and "- 1022 \<le> e" and "e \<le> 1022"
    and "r = of_int (roundTiesToEven (x / 2 powi (e - 52))) * 2 powi (e - 52)"
  shows "num x = Num r"
proof -
  define q :: real where "q = 2 powi (e - 52)"
  have q: "0 < q"
    by (simp add: q_def)
  have b: "binade \<bar>x\<bar> = e"
    using assms(1-4) by (intro binade_eq) simp_all
  have "e + 1 = e - 52 + 53"
    by simp
  then have "(2::real) powi (e + 1) = 2 powi (e - 52 + 53)"
    by presburger
  also have "\<dots> = q * 2 powi 53"
    unfolding q_def by (rule power_int_add) simp
  finally have split: "(2::real) powi (e + 1) = q * 2 ^ 53"
    by simp
  have "\<bar>x / q\<bar> < 2 ^ 53"
    using assms(2) q unfolding split by (simp add: field_simps abs_if split: if_splits)
  then have up: "x / q < 2 ^ 53" and lo: "- (2 ^ 53) < x / q"
    by linarith+
  have "\<lceil>x / q\<rceil> \<le> 2 ^ 53"
    using up by (simp add: ceiling_le_iff less_imp_le)
  then have m_up: "roundTiesToEven (x / q) \<le> 2 ^ 53"
    using roundTiesToEven_le [of "x / q"] by linarith
  have "- (2 ^ 53) \<le> \<lfloor>x / q\<rfloor>"
    using lo by (simp add: le_floor_iff less_imp_le)
  then have m_lo: "- (2 ^ 53) \<le> roundTiesToEven (x / q)"
    using roundTiesToEven_ge [of "x / q"] by linarith
  have "\<bar>of_int (roundTiesToEven (x / q)) :: real\<bar> \<le> 2 ^ 53"
    using m_up m_lo by (simp add: abs_le_iff)
  then have "\<bar>r\<bar> \<le> 2 ^ 53 * q"
    using q unfolding assms(5) q_def [symmetric] by (simp add: abs_mult)
  also have "\<dots> = 2 powi (e + 1)"
    unfolding split by simp
  also have "\<dots> \<le> 2 powi 1023"
    using assms(4) by (intro power_int_increasing) simp_all
  also have "\<dots> < (2::real) ^ 1024"
    by simp
  finally have "\<bar>r\<bar> < 2 ^ 1024" .
  then have "\<not> 2 ^ 1024 \<le> r" "\<not> r \<le> - (2 ^ 1024)"
    by (simp_all add: abs_less_iff)
  then show ?thesis
    unfolding num_def Let_def b assms(5) by simp
qed

lemma num_zero: "num 0 = Num 0"
  by (simp add: num_def roundTiesToEven_def)









lemma num_lt_not_ge: "num_lt a b \<Longrightarrow> \<not> num_ge a b"
  by (cases a; cases b) (auto simp: num_ge_def)

text \<open>The literal 0.8 of \<open>reflect\<close>, and its double.\<close>

lemma lit_08: "num 0.8 = Num (3602879701896397 / 4503599627370496)"
  by (rule num_eval [where e = "- 1"]) (simp_all add: roundTiesToEven_def)

lemma lit_16: "num 1.6 = Num (3602879701896397 / 2251799813685248)"
  by (rule num_eval [where e = 0]) (simp_all add: roundTiesToEven_def)

subsection \<open>Sorting permutes\<close>

lemma mset_sort_insert: "mset (sort_insert cmp x ys) = add_mset x (mset ys)"
  by (induction ys) auto

lemma mset_foldl_sort_insert:
  "mset (foldl (\<lambda>acc x. sort_insert cmp x acc) acc xs) = mset acc + mset xs"
  by (induction xs arbitrary: acc) (auto simp: mset_sort_insert)

lemma mset_js_sort: "mset (js_sort cmp xs) = mset xs"
  by (simp add: js_sort_def mset_foldl_sort_insert)

lemma length_js_sort: "length (js_sort cmp xs) = length xs"
  using mset_js_sort [of cmp xs] by (metis size_mset)

lemma set_js_sort: "set (js_sort cmp xs) = set xs"
  using mset_js_sort [of cmp xs] by (metis set_mset_mset)

lemma mset_Array_sort: "mset (Array_sort eng cmp xs) = mset xs"
proof -
  have "mset (map (\<lambda>i. xs ! i) order) = mset xs" if "mset order = mset [0..<length xs]" for order
  proof -
    have "mset (map (\<lambda>i. xs ! i) order) = image_mset (\<lambda>i. xs ! i) (mset order)"
      by simp
    also have "\<dots> = mset (map (\<lambda>i. xs ! i) [0..<length xs])"
      unfolding that by simp
    also have "map (\<lambda>i. xs ! i) [0..<length xs] = xs"
      by (rule map_nth)
    finally show ?thesis .
  qed
  then show ?thesis
    by (simp add: Array_sort_def Let_def mset_js_sort)
qed

lemma length_Array_sort: "length (Array_sort eng cmp xs) = length xs"
  using mset_Array_sort [of eng cmp xs] by (metis size_mset)

lemma set_Array_sort: "set (Array_sort eng cmp xs) = set xs"
  using mset_Array_sort [of eng cmp xs] by (metis set_mset_mset)

lemma Array_sort_consistent:
  "consistent_comparator cmp xs \<Longrightarrow> Array_sort eng cmp xs = js_sort (\<lambda>a b. sort_value (cmp a b)) xs"
  by (simp add: Array_sort_def)

subsection \<open>What eviction leaves\<close>

lemma filter_removes_prefix:
  assumes "mset ys = mset xs"
  shows "length (filter (\<lambda>m. f m \<notin> f ` set (take k ys)) xs) + min k (length xs) \<le> length xs"
proof -
  let ?Q = "\<lambda>m. f m \<in> f ` set (take k ys)"
  have len: "length ys = length xs"
    using assms by (metis size_mset)
  have "filter ?Q (take k ys) = take k ys"
    by (simp add: filter_id_conv)
  then have "length (take k ys) = length (filter ?Q (take k ys))"
    by simp
  also have "\<dots> \<le> length (filter ?Q (take k ys)) + length (filter ?Q (drop k ys))"
    by simp
  also have "\<dots> = length (filter ?Q ys)"
    by (metis append_take_drop_id filter_append length_append)
  also have "\<dots> = size (filter_mset ?Q (mset ys))"
    by (metis mset_filter size_mset)
  also have "\<dots> = length (filter ?Q xs)"
    using assms by (metis mset_filter size_mset)
  finally have "min k (length xs) \<le> length (filter ?Q xs)"
    using len by simp
  moreover have "length (filter ?Q xs) + length (filter (\<lambda>m. \<not> ?Q m) xs) = length xs"
    using sum_length_filter_compl [of ?Q xs] by simp
  ultimately show ?thesis
    by simp
qed

lemma length_evict:
  assumes "length (memories s) > maxMemories cfg"
  shows "length (memories (evict eng cfg s)) \<le> maxMemories cfg"
proof -
  define k where "k = length (memories s) - maxMemories cfg"
  have k: "int (length (memories s)) - int (maxMemories cfg) = int k" "k \<le> length (memories s)"
    using assms by (simp_all add: k_def)
  have "length (filter (\<lambda>m. mid m \<notin> mid ` set (take k (Array_sort eng evict_cmp (memories s))))
          (memories s)) + min k (length (memories s)) \<le> length (memories s)"
    by (rule filter_removes_prefix) (rule mset_Array_sort)
  then have "length (memories (evict eng cfg s)) + k \<le> length (memories s)"
    using k by (simp add: evict_def js_slice0_def Let_def)
  then show ?thesis
    using assms by (simp add: k_def)
qed

lemma length_add_le: "length (memories (snd (add eng cfg now c ty imp ents s))) \<le> maxMemories cfg"
proof -
  let ?s1 = "s\<lparr>memories := memories s @ [\<lparr>mid = nextId s, content = c, mtype = ty,
      timestamp = now, lastAccessed = now, importance = Math_max (Num 0) (Math_min (Num 1) imp),
      entities = ents\<rparr>],
    importanceSinceLastReflection :=
      num_add (importanceSinceLastReflection s) (Math_max (Num 0) (Math_min (Num 1) imp)),
    nextId := nextId s + 1\<rparr>"
  show ?thesis
  proof (cases "length (memories ?s1) > maxMemories cfg")
    case True
    then show ?thesis
      using length_evict [of cfg ?s1 eng] by (simp add: add_def Let_def)
  next
    case False
    then show ?thesis
      by (simp add: add_def Let_def)
  qed
qed

lemma length_add_step_le: "length (memories (add_step eng cfg s c)) \<le> maxMemories cfg"
  by (simp add: add_step_def length_add_le)

text \<open>
  Claim C1. Whatever the store and whatever the arguments, the number of stored entries
  when \<open>add\<close> returns is at most \<open>maxMemories\<close>, and so it is after every call of any
  non-empty sequence of calls: eviction is part of the call that breached the capacity.
\<close>

theorem add_count_le_capacity:
  "length (memories (snd (add eng cfg now c ty imp ents s))) \<le> maxMemories cfg \<and>
   length (memories (foldl (add_step eng cfg) (add_step eng cfg s call) calls)) \<le> maxMemories cfg"
proof
  show "length (memories (snd (add eng cfg now c ty imp ents s))) \<le> maxMemories cfg"
    by (rule length_add_le)
  show "length (memories (foldl (add_step eng cfg) (add_step eng cfg s call) calls)) \<le> maxMemories cfg"
  proof (induction calls rule: rev_induct)
    case Nil
    show ?case by (simp add: length_add_step_le)
  next
    case (snoc x xs)
    show ?case by (simp add: length_add_step_le)
  qed
qed

subsection \<open>Sorting sorts\<close>

lemma trans_onD: "trans_on S R \<Longrightarrow> a \<in> S \<Longrightarrow> b \<in> S \<Longrightarrow> c \<in> S \<Longrightarrow> R a b \<Longrightarrow> R b c \<Longrightarrow> R a c"
  unfolding trans_on_def by blast

lemma set_sort_insert: "set (sort_insert cmp x ys) = insert x (set ys)"
  by (induction ys) auto

lemma sort_insert_sorted_wrt:
  assumes "trans_on S R" and "x \<in> S"
  shows "set ys \<subseteq> S \<Longrightarrow> \<forall>y\<in>set ys. sort_ok cmp R y x \<Longrightarrow> sorted_wrt (\<lambda>a b. R b a) ys
    \<Longrightarrow> sorted_wrt (\<lambda>a b. R b a) (sort_insert cmp x ys)"
proof (induction ys)
  case Nil
  show ?case by simp
next
  case (Cons y ys)
  have y: "y \<in> S" and ys: "set ys \<subseteq> S"
    using Cons.prems(1) by simp_all
  have ok_y: "sort_ok cmp R y x" and ok_ys: "\<forall>y\<in>set ys. sort_ok cmp R y x"
    using Cons.prems(2) by simp_all
  have sorted_ys: "sorted_wrt (\<lambda>a b. R b a) ys" and above: "\<forall>z\<in>set ys. R z y"
    using Cons.prems(3) by simp_all
  show ?case
  proof (cases "cmp y x > 0")
    case True
    have "sorted_wrt (\<lambda>a b. R b a) (sort_insert cmp x ys)"
      using ys ok_ys sorted_ys by (rule Cons.IH)
    moreover have "R x y"
      using ok_y True by (simp add: sort_ok_def)
    ultimately show ?thesis
      using True above by (simp add: set_sort_insert)
  next
    case False
    have yx: "R y x"
      using ok_y False by (simp add: sort_ok_def)
    have "\<forall>z\<in>set ys. R z x"
    proof
      fix z assume z: "z \<in> set ys"
      then have "z \<in> S" "R z y" using ys above by auto
      then show "R z x"
        using trans_onD [OF assms(1), of z y x] y assms(2) yx by simp
    qed
    then show ?thesis
      using False sorted_ys above yx by simp
  qed
qed

lemma foldl_sort_insert_sorted_wrt:
  assumes "trans_on S R"
  shows "set acc \<subseteq> S \<Longrightarrow> set xs \<subseteq> S \<Longrightarrow> sorted_wrt (\<lambda>a b. R b a) acc \<Longrightarrow>
    \<forall>y\<in>set acc. \<forall>x\<in>set xs. sort_ok cmp R y x \<Longrightarrow> sorted_wrt (sort_ok cmp R) xs \<Longrightarrow>
    sorted_wrt (\<lambda>a b. R b a) (foldl (\<lambda>acc x. sort_insert cmp x acc) acc xs)"
proof (induction xs arbitrary: acc)
  case Nil
  from Nil.prems(3) show ?case by simp
next
  case (Cons x xs)
  have x: "x \<in> S" and xs: "set xs \<subseteq> S"
    using Cons.prems(2) by simp_all
  have ok_x: "\<forall>y\<in>set acc. sort_ok cmp R y x"
    using Cons.prems(4) by simp
  have "sorted_wrt (\<lambda>a b. R b a) (sort_insert cmp x acc)"
    using assms x Cons.prems(1) ok_x Cons.prems(3) by (rule sort_insert_sorted_wrt)
  moreover have "set (sort_insert cmp x acc) \<subseteq> S"
    using x Cons.prems(1) by (simp add: set_sort_insert)
  moreover have "\<forall>y\<in>set (sort_insert cmp x acc). \<forall>x'\<in>set xs. sort_ok cmp R y x'"
    using Cons.prems(4,5) by (simp add: set_sort_insert)
  moreover have "sorted_wrt (sort_ok cmp R) xs"
    using Cons.prems(5) by simp
  ultimately have "sorted_wrt (\<lambda>a b. R b a)
      (foldl (\<lambda>acc x. sort_insert cmp x acc) (sort_insert cmp x acc) xs)"
    using xs Cons.IH by blast
  then show ?case by simp
qed

lemma js_sort_sorted_wrt:
  assumes "trans_on (set xs) R" and "sorted_wrt (sort_ok cmp R) xs"
  shows "sorted_wrt R (js_sort cmp xs)"
proof -
  have "sorted_wrt (\<lambda>a b. R b a) (foldl (\<lambda>acc x. sort_insert cmp x acc) [] xs)"
    using assms(1) _ _ _ _ assms(2) by (rule foldl_sort_insert_sorted_wrt) simp_all
  then show ?thesis
    by (simp add: js_sort_def sorted_wrt_rev)
qed

lemma sorted_wrt_all: "\<forall>x\<in>set xs. \<forall>y\<in>set xs. P x y \<Longrightarrow> sorted_wrt P xs"
  by (induction xs) auto

text \<open>A consistent comparator orders the elements: its "at or below" is transitive, and
  insertion puts the elements in that order.\<close>

lemma consistentD:
  assumes "consistent_comparator cmp xs" and "a \<in> set xs" and "b \<in> set xs" and "c \<in> set xs"
  shows "cmp a b \<noteq> NaN"
    and "sort_value (cmp a a) = 0"
    and "sort_value (cmp a b) = 0 \<Longrightarrow> sort_value (cmp b a) = 0"
    and "sort_value (cmp a b) = 0 \<Longrightarrow> sort_value (cmp b c) = 0 \<Longrightarrow> sort_value (cmp a c) = 0"
    and "sort_value (cmp a b) < 0 \<Longrightarrow> sort_value (cmp b c) < 0 \<Longrightarrow> sort_value (cmp a c) < 0"
    and "sort_value (cmp a b) > 0 \<Longrightarrow> sort_value (cmp b c) > 0 \<Longrightarrow> sort_value (cmp a c) > 0"
proof -
  have all: "cmp a b \<noteq> NaN \<and>
        sort_value (cmp a a) = 0 \<and>
        (sort_value (cmp a b) = 0 \<longrightarrow> sort_value (cmp b a) = 0) \<and>
        (sort_value (cmp a b) = 0 \<and> sort_value (cmp b c) = 0 \<longrightarrow> sort_value (cmp a c) = 0) \<and>
        (sort_value (cmp a b) < 0 \<and> sort_value (cmp b c) < 0 \<longrightarrow> sort_value (cmp a c) < 0) \<and>
        (sort_value (cmp a b) > 0 \<and> sort_value (cmp b c) > 0 \<longrightarrow> sort_value (cmp a c) > 0)"
    using assms unfolding consistent_comparator_def by blast
  from all show "cmp a b \<noteq> NaN" by simp
  from all show "sort_value (cmp a a) = 0" by simp
  from all show "sort_value (cmp a b) = 0 \<Longrightarrow> sort_value (cmp b a) = 0" by simp
  from all show "sort_value (cmp a b) = 0 \<Longrightarrow> sort_value (cmp b c) = 0 \<Longrightarrow> sort_value (cmp a c) = 0"
    by simp
  from all show "sort_value (cmp a b) < 0 \<Longrightarrow> sort_value (cmp b c) < 0 \<Longrightarrow> sort_value (cmp a c) < 0"
    by simp
  from all show "sort_value (cmp a b) > 0 \<Longrightarrow> sort_value (cmp b c) > 0 \<Longrightarrow> sort_value (cmp a c) > 0"
    by simp
qed

lemma consistent_converse:
  assumes "consistent_comparator cmp xs" and "a \<in> set xs" and "b \<in> set xs"
  shows "sort_value (cmp a b) > 0 \<Longrightarrow> sort_value (cmp b a) < 0"
    and "sort_value (cmp a b) < 0 \<Longrightarrow> sort_value (cmp b a) > 0"
proof -
  note refl = consistentD(2) [OF assms(1) assms(2) assms(2) assms(2)]
  note sym = consistentD(3) [OF assms(1) assms(3) assms(2) assms(2)]
  note lt = consistentD(5) [OF assms(1) assms(2) assms(3) assms(2)]
  note gt = consistentD(6) [OF assms(1) assms(2) assms(3) assms(2)]
  show "sort_value (cmp b a) < 0" if "sort_value (cmp a b) > 0"
  proof (rule ccontr)
    assume "\<not> sort_value (cmp b a) < 0"
    then consider "sort_value (cmp b a) = 0" | "sort_value (cmp b a) > 0"
      by linarith
    then show False
    proof cases
      case 1
      then show False using sym that by simp
    next
      case 2
      then show False using gt that refl by simp
    qed
  qed
  show "sort_value (cmp b a) > 0" if "sort_value (cmp a b) < 0"
  proof (rule ccontr)
    assume "\<not> sort_value (cmp b a) > 0"
    then consider "sort_value (cmp b a) = 0" | "sort_value (cmp b a) < 0"
      by linarith
    then show False
    proof cases
      case 1
      then show False using sym that by simp
    next
      case 2
      then show False using lt that refl by simp
    qed
  qed
qed

lemma consistent_le_trans:
  assumes cc: "consistent_comparator cmp xs"
    and a: "a \<in> set xs" and b: "b \<in> set xs" and c: "c \<in> set xs"
    and ab: "sort_value (cmp a b) \<le> 0" and bc: "sort_value (cmp b c) \<le> 0"
  shows "sort_value (cmp a c) \<le> 0"
proof (rule ccontr)
  assume "\<not> sort_value (cmp a c) \<le> 0"
  then have ac: "sort_value (cmp a c) > 0"
    by simp
  then have ca: "sort_value (cmp c a) < 0"
    using consistent_converse(1) [OF cc a c] by simp
  consider "sort_value (cmp a b) < 0" "sort_value (cmp b c) < 0"
    | "sort_value (cmp a b) = 0" "sort_value (cmp b c) = 0"
    | "sort_value (cmp a b) < 0" "sort_value (cmp b c) = 0"
    | "sort_value (cmp a b) = 0" "sort_value (cmp b c) < 0"
    using ab bc by linarith
  then show False
  proof cases
    case 1
    then have "sort_value (cmp a c) < 0"
      using consistentD(5) [OF cc a b c] by simp
    then show False using ac by simp
  next
    case 2
    then have "sort_value (cmp a c) = 0"
      using consistentD(4) [OF cc a b c] by simp
    then show False using ac by simp
  next
    case 3
    have "sort_value (cmp c b) < 0"
      using consistentD(5) [OF cc c a b] ca 3(1) by simp
    moreover have "sort_value (cmp c b) = 0"
      using consistentD(3) [OF cc b c c] 3(2) by simp
    ultimately show False by simp
  next
    case 4
    have "sort_value (cmp b a) < 0"
      using consistentD(5) [OF cc b c a] ca 4(2) by simp
    moreover have "sort_value (cmp b a) = 0"
      using consistentD(3) [OF cc a b b] 4(1) by simp
    ultimately show False by simp
  qed
qed

lemma sorted_consistent:
  assumes cc: "consistent_comparator cmp xs"
  shows "sorted_wrt (\<lambda>a b. sort_value (cmp a b) \<le> 0) (js_sort (\<lambda>a b. sort_value (cmp a b)) xs)"
proof (rule js_sort_sorted_wrt)
  show "trans_on (set xs) (\<lambda>a b. sort_value (cmp a b) \<le> 0)"
    unfolding trans_on_def using consistent_le_trans [OF cc] by blast
  have "sort_ok (\<lambda>a b. sort_value (cmp a b)) (\<lambda>a b. sort_value (cmp a b) \<le> 0) y x"
    if "x \<in> set xs" "y \<in> set xs" for x y
    using consistent_converse(1) [OF cc that(2) that(1)] by (auto simp: sort_ok_def)
  then show "sorted_wrt (sort_ok (\<lambda>a b. sort_value (cmp a b)) (\<lambda>a b. sort_value (cmp a b) \<le> 0)) xs"
    by (intro sorted_wrt_all) simp
qed

subsection \<open>The eviction order\<close>

lemma ids_fresh_new: "ids_fresh new_MemoryStream"
  by (simp add: ids_fresh_def new_MemoryStream_def)

lemma ids_fresh_evict: "ids_fresh s \<Longrightarrow> ids_fresh (evict eng cfg s)"
  by (auto simp: ids_fresh_def evict_def Let_def distinct_map_filter)

lemma ids_fresh_add: "ids_fresh s \<Longrightarrow> ids_fresh (snd (add eng cfg now c ty imp ents s))"
proof -
  assume a: "ids_fresh s"
  let ?e = "\<lparr>mid = nextId s, content = c, mtype = ty, timestamp = now, lastAccessed = now,
    importance = Math_max (Num 0) (Math_min (Num 1) imp), entities = ents\<rparr>"
  let ?s1 = "s\<lparr>memories := memories s @ [?e],
    importanceSinceLastReflection :=
      num_add (importanceSinceLastReflection s) (Math_max (Num 0) (Math_min (Num 1) imp)),
    nextId := nextId s + 1\<rparr>"
  have "ids_fresh ?s1"
    using a by (fastforce simp: ids_fresh_def)
  then show ?thesis
    by (simp add: add_def Let_def ids_fresh_evict)
qed

lemma evict_memories_distinct:
  fixes eng :: Engine
  assumes "length (memories s) > maxMemories cfg" and "distinct (map mid (memories s))"
  defines "k \<equiv> length (memories s) - maxMemories cfg"
  defines "srt \<equiv> Array_sort eng evict_cmp (memories s)"
  shows "memories (evict eng cfg s) = filter (\<lambda>m. m \<notin> set (take k srt)) (memories s)"
    and "set (memories (evict eng cfg s)) = set (drop k srt)"
    and "set (memories s) - set (memories (evict eng cfg s)) = set (take k srt)"
    and "length (memories (evict eng cfg s)) = maxMemories cfg"
proof -
  let ?xs = "memories s"
  have inj: "inj_on mid (set ?xs)" and dist: "distinct ?xs"
    using assms(2) by (simp_all add: distinct_map)
  have set_srt: "set srt = set ?xs" and len_srt: "length srt = length ?xs"
    by (simp_all add: srt_def set_Array_sort length_Array_sort)
  have dist_srt: "distinct srt"
    using dist mset_Array_sort [of eng evict_cmp ?xs] unfolding srt_def
    by (metis mset_eq_imp_distinct_iff)
  have k: "int (length ?xs) - int (maxMemories cfg) = int k" "k \<le> length ?xs"
    using assms(1) by (simp_all add: k_def)
  have sub: "set (take k srt) \<subseteq> set ?xs"
    using set_srt set_take_subset by fastforce
  have mem_iff: "mid m \<in> mid ` set (take k srt) \<longleftrightarrow> m \<in> set (take k srt)" if "m \<in> set ?xs" for m
    using inj sub that by (auto dest: inj_onD)
  have "memories (evict eng cfg s) = filter (\<lambda>m. mid m \<notin> mid ` set (take k srt)) ?xs"
    using k by (simp add: evict_def js_slice0_def Let_def srt_def)
  also have "\<dots> = filter (\<lambda>m. m \<notin> set (take k srt)) ?xs"
    by (rule filter_cong) (simp_all add: mem_iff)
  finally show eq: "memories (evict eng cfg s) = filter (\<lambda>m. m \<notin> set (take k srt)) ?xs" .
  have split: "set (take k srt) \<union> set (drop k srt) = set ?xs"
    "set (take k srt) \<inter> set (drop k srt) = {}"
    using set_srt dist_srt
    by (metis append_take_drop_id set_append, metis append_take_drop_id distinct_append)
  show ret: "set (memories (evict eng cfg s)) = set (drop k srt)"
    using split unfolding eq by auto
  show "set ?xs - set (memories (evict eng cfg s)) = set (take k srt)"
    using split unfolding ret by auto
  have "distinct (memories (evict eng cfg s))"
    unfolding eq using dist by simp
  then have "length (memories (evict eng cfg s)) = card (set (drop k srt))"
    using ret by (metis distinct_card)
  also have "\<dots> = length (drop k srt)"
    using dist_srt by (simp add: distinct_card)
  also have "\<dots> = maxMemories cfg"
    using len_srt assms(1) by (simp add: k_def)
  finally show "length (memories (evict eng cfg s)) = maxMemories cfg" .
qed

lemma evict_sorted_split:
  assumes "length (memories s) > maxMemories cfg" and "distinct (map mid (memories s))"
    and "sorted_wrt R (Array_sort eng evict_cmp (memories s))"
    and "e \<in> set (memories s)" "e \<notin> set (memories (evict eng cfg s))"
    and "r \<in> set (memories (evict eng cfg s))"
  shows "R e r"
proof -
  define k where "k = length (memories s) - maxMemories cfg"
  define srt where "srt = Array_sort eng evict_cmp (memories s)"
  have "e \<in> set (take k srt)"
    using evict_memories_distinct(3) [OF assms(1,2)] assms(4,5) unfolding k_def srt_def by blast
  moreover have "r \<in> set (drop k srt)"
    using evict_memories_distinct(2) [OF assms(1,2)] assms(6) unfolding k_def srt_def by blast
  moreover have "sorted_wrt R (take k srt @ drop k srt)"
    using assms(3) by (simp add: srt_def)
  ultimately show ?thesis
    unfolding sorted_wrt_append by blast
qed

text \<open>
  Claim C2, as amended. For a store over capacity whose identifiers are pairwise different
  (as \<open>add\<close> keeps them, \<open>ids_fresh_add\<close>), \<open>evict\<close> leaves exactly \<open>maxMemories\<close>
  entries, in their stored order, whatever the engine. When \<open>evict_cmp\<close> is a consistent
  comparator for the stored entries, every removed entry ranks at or below every kept
  entry in the order of \<open>evict_cmp\<close>, and no reflection is removed while an entry of
  another type is kept.
\<close>

theorem evict_removes_lowest:
  assumes "length (memories s) > maxMemories cfg"
    and "distinct (map mid (memories s))"
  shows "length (memories (evict eng cfg s)) = maxMemories cfg \<and>
    subseq (memories (evict eng cfg s)) (memories s) \<and>
    (consistent_comparator evict_cmp (memories s) \<longrightarrow>
       (\<forall>e\<in>set (memories s). \<forall>r\<in>set (memories (evict eng cfg s)).
          e \<notin> set (memories (evict eng cfg s)) \<longrightarrow>
            sort_value (evict_cmp e r) \<le> 0 \<and> (mtype e = Reflection \<longrightarrow> mtype r = Reflection)))"
proof (intro conjI ballI impI)
  show "length (memories (evict eng cfg s)) = maxMemories cfg"
    using assms by (rule evict_memories_distinct(4))
  show "subseq (memories (evict eng cfg s)) (memories s)"
    unfolding evict_memories_distinct(1) [OF assms] by (rule subseq_filter_left)
next
  fix e r
  assume cc: "consistent_comparator evict_cmp (memories s)"
  then have "sorted_wrt (\<lambda>a b. sort_value (evict_cmp a b) \<le> 0) (Array_sort eng evict_cmp (memories s))"
    by (simp add: Array_sort_consistent sorted_consistent)
  moreover assume "e \<in> set (memories s)" "r \<in> set (memories (evict eng cfg s))"
    "e \<notin> set (memories (evict eng cfg s))"
  ultimately show le: "sort_value (evict_cmp e r) \<le> 0"
    using evict_sorted_split [OF assms, of "\<lambda>a b. sort_value (evict_cmp a b) \<le> 0" eng e r] by blast
  show "mtype r = Reflection" if "mtype e = Reflection"
  proof (rule ccontr)
    assume "mtype r \<noteq> Reflection"
    then have "evict_cmp e r = Num 1"
      using that by (simp add: evict_cmp_def)
    then show False
      using le by simp
  qed
qed

text \<open>The comparisons of the examples.\<close>

lemma lit_01: "num 0.1 = Num (3602879701896397 / 36028797018963968)"
  by (rule num_eval [where e = "- 4"]) (simp_all add: roundTiesToEven_def)

lemma lit_03: "num 0.3 = Num (5404319552844595 / 18014398509481984)"
  by (rule num_eval [where e = "- 2"]) (simp_all add: roundTiesToEven_def)

lemma lit_09: "num 0.9 = Num (8106479329266893 / 9007199254740992)"
  by (rule num_eval [where e = "- 1"]) (simp_all add: roundTiesToEven_def)

lemma lit_016: "num 0.16 = Num (5764607523034235 / 36028797018963968)"
  by (rule num_eval [where e = "- 3"]) (simp_all add: roundTiesToEven_def)

lemma lit_008: "num 0.08 = Num (5764607523034235 / 72057594037927936)"
  by (rule num_eval [where e = "- 4"]) (simp_all add: roundTiesToEven_def)

lemma diff_minor_major: "num (- (10808639105689191 / 18014398509481984)) = Num (- (1351079888211149 / 2251799813685248))"
  by (rule num_eval [where e = "- 1"]) (simp_all add: roundTiesToEven_def)

lemma diff_major_minor: "num (10808639105689191 / 18014398509481984) = Num (1351079888211149 / 2251799813685248)"
  by (rule num_eval [where e = "- 1"]) (simp_all add: roundTiesToEven_def)

lemma diff_first_second: "num (5764607523034235 / 72057594037927936) = Num (5764607523034235 / 72057594037927936)"
  by (rule num_eval [where e = "- 4"]) (simp_all add: roundTiesToEven_def)

lemma diff_second_first: "num (- (5764607523034235 / 72057594037927936)) = Num (- (5764607523034235 / 72057594037927936))"
  by (rule num_eval [where e = "- 4"]) (simp_all add: roundTiesToEven_def)

lemma diff_first_third: "num (5764607523034235 / 36028797018963968) = Num (5764607523034235 / 36028797018963968)"
  by (rule num_eval [where e = "- 3"]) (simp_all add: roundTiesToEven_def)

lemma diff_third_first: "num (- (5764607523034235 / 36028797018963968)) = Num (- (5764607523034235 / 36028797018963968))"
  by (rule num_eval [where e = "- 3"]) (simp_all add: roundTiesToEven_def)

lemma diff_second_third: "num (5764607523034235 / 72057594037927936) = Num (5764607523034235 / 72057594037927936)"
  by (rule num_eval [where e = "- 4"]) (simp_all add: roundTiesToEven_def)

lemma diff_third_second: "num (- (5764607523034235 / 72057594037927936)) = Num (- (5764607523034235 / 72057594037927936))"
  by (rule num_eval [where e = "- 4"]) (simp_all add: roundTiesToEven_def)

lemma int_1: "num 1 = Num 1"
  by (rule num_eval [where e = 0]) (simp_all add: roundTiesToEven_def)

lemma int_2: "num 2 = Num 2"
  by (rule num_eval [where e = 1]) (simp_all add: roundTiesToEven_def)

lemma int_3: "num 3 = Num 3"
  by (rule num_eval [where e = 1]) (simp_all add: roundTiesToEven_def)

lemma int_m1: "num (- 1) = Num (- 1)"
  by (rule num_eval [where e = 0]) (simp_all add: roundTiesToEven_def)

lemma int_m2: "num (- 2) = Num (- 2)"
  by (rule num_eval [where e = 1]) (simp_all add: roundTiesToEven_def)

lemmas ex_entries = ex_entry_def ex_first_def ex_second_def ex_third_def ex_insight_def
  ex_minor_def ex_major_def

lemmas cmp_evals = lit_08 lit_01 lit_03 lit_09 lit_016 lit_008 diff_minor_major diff_major_minor
  diff_first_second diff_second_first diff_first_third diff_third_first diff_second_third
  diff_third_second int_1 int_2 int_3 int_m1 int_m2 num_zero

lemma ex_mixed_cmp:
  "evict_cmp ex_insight ex_insight = Num 0"
  "evict_cmp ex_insight ex_minor = Num 1"
  "evict_cmp ex_insight ex_major = Num 1"
  "evict_cmp ex_minor ex_insight = Num (- 1)"
  "evict_cmp ex_minor ex_minor = Num 0"
  "evict_cmp ex_minor ex_major = Num (- (1351079888211149 / 2251799813685248))"
  "evict_cmp ex_major ex_insight = Num (- 1)"
  "evict_cmp ex_major ex_minor = Num (1351079888211149 / 2251799813685248)"
  "evict_cmp ex_major ex_major = Num 0"
  unfolding evict_cmp_def ex_entries lit_08 lit_01 lit_03 lit_09
  by (simp_all add: Let_def num_gt_def cmp_evals)

lemma ex_mixed_consistent: "consistent_comparator evict_cmp (memories ex_mixed)"
  unfolding consistent_comparator_def ex_mixed_def by (simp add: ex_mixed_cmp)

lemma ex_mixed_mid: "mid ex_insight = 0" "mid ex_minor = 1" "mid ex_major = 2"
  by (simp_all add: ex_entries)

lemma ex_mixed_evict: "memories (evict eng ex_cfg ex_mixed) = [ex_insight, ex_major]"
proof -
  have "Array_sort eng evict_cmp (memories ex_mixed) = [ex_minor, ex_major, ex_insight]"
    unfolding Array_sort_consistent [OF ex_mixed_consistent]
    by (simp add: ex_mixed_def js_sort_def ex_mixed_cmp)
  then show ?thesis
    by (simp add: evict_def Let_def js_slice0_def ex_mixed_def ex_cfg_def ex_mixed_mid)
qed

theorem evict_removes_lowest_witness:
  "maxMemories ex_cfg < length (memories ex_mixed) \<and>
   distinct (map mid (memories ex_mixed)) \<and>
   consistent_comparator evict_cmp (memories ex_mixed) \<and>
   memories (evict ex_engine ex_cfg ex_mixed) = [ex_insight, ex_major] \<and>
   length (memories (evict ex_engine ex_cfg ex_mixed)) = maxMemories ex_cfg \<and>
   subseq (memories (evict ex_engine ex_cfg ex_mixed)) (memories ex_mixed) \<and>
   sort_value (evict_cmp ex_minor ex_major) \<le> 0 \<and>
   sort_value (evict_cmp ex_minor ex_insight) \<le> 0"
proof -
  have h1: "maxMemories ex_cfg < length (memories ex_mixed)"
    by (simp add: ex_cfg_def ex_mixed_def)
  have h2: "distinct (map mid (memories ex_mixed))"
    by (simp add: ex_mixed_def ex_mixed_mid)
  note h3 = ex_mixed_consistent
  note ev = ex_mixed_evict [of ex_engine]
  have ne: "ex_minor \<noteq> ex_insight" "ex_minor \<noteq> ex_major"
    by (simp_all add: ex_entries)
  have mem: "ex_minor \<in> set (memories ex_mixed)"
    "ex_minor \<notin> set (memories (evict ex_engine ex_cfg ex_mixed))"
    "ex_major \<in> set (memories (evict ex_engine ex_cfg ex_mixed))"
    "ex_insight \<in> set (memories (evict ex_engine ex_cfg ex_mixed))"
    unfolding ev using ne by (simp_all add: ex_mixed_def)
  note main = evict_removes_lowest [OF h1 h2, of ex_engine]
  from main h3 mem have "sort_value (evict_cmp ex_minor ex_major) \<le> 0"
    "sort_value (evict_cmp ex_minor ex_insight) \<le> 0"
    by blast+
  with main h1 h2 h3 ev show ?thesis
    by simp
qed

text \<open>
  Claim C2 as stated fails: the comparator is not transitive, so there is no order of which
  the removed entries could be the least. With capacity 2 and three observations of
  importance 0.16, 0.08 and 0 created in that order, the first ranks below the second and
  the second below the third by age (their importances differ by less than the tolerance),
  and the third ranks below the first by importance: whichever entry is removed, a kept
  entry ranks strictly below it. An engine that sorts by insertion removes the oldest entry,
  of importance 0.16, and keeps the entry of importance 0.
\<close>

theorem evict_not_least_counterexample:
  "maxMemories ex_cfg < length (memories ex_cyclic) \<and>
   distinct (map mid (memories ex_cyclic)) \<and>
   sort_value (evict_cmp ex_first ex_second) < 0 \<and>
   sort_value (evict_cmp ex_second ex_third) < 0 \<and>
   sort_value (evict_cmp ex_third ex_first) < 0 \<and>
   \<not> consistent_comparator evict_cmp (memories ex_cyclic) \<and>
   memories (evict ex_engine ex_cfg ex_cyclic) = [ex_second, ex_third] \<and>
   \<not> sort_value (evict_cmp ex_first ex_third) \<le> 0"
proof -
  have mids: "mid ex_first = 0" "mid ex_second = 1" "mid ex_third = 2"
    by (simp_all add: ex_entries)
  have cmp: "evict_cmp ex_first ex_second = Num (- 1)"
    "evict_cmp ex_second ex_third = Num (- 1)"
    "evict_cmp ex_third ex_first = Num (- (5764607523034235 / 36028797018963968))"
    "evict_cmp ex_first ex_third = Num (5764607523034235 / 36028797018963968)"
    unfolding evict_cmp_def ex_entries lit_01 lit_016 lit_008
    by (simp_all add: Let_def num_gt_def cmp_evals)
  have nc: "\<not> consistent_comparator evict_cmp (memories ex_cyclic)"
  proof
    assume cc: "consistent_comparator evict_cmp (memories ex_cyclic)"
    have "sort_value (evict_cmp ex_first ex_third) < 0"
      by (rule consistentD(5) [OF cc, of ex_first ex_second ex_third])
        (simp_all add: ex_cyclic_def cmp)
    then show False
      by (simp add: cmp)
  qed
  have order: "sort_order ex_engine (\<lambda>i j. evict_cmp (memories ex_cyclic ! i) (memories ex_cyclic ! j))
      (length (memories ex_cyclic)) = [0, 1, 2]"
    by (simp add: ex_engine_def ex_cyclic_def js_sort_def upt_conv_Cons cmp)
  have "Array_sort ex_engine evict_cmp (memories ex_cyclic) = [ex_first, ex_second, ex_third]"
    unfolding Array_sort_def Let_def order using nc by (simp add: ex_cyclic_def upt_conv_Cons)
  then have "memories (evict ex_engine ex_cfg ex_cyclic) = [ex_second, ex_third]"
    by (simp add: evict_def Let_def js_slice0_def ex_cyclic_def ex_cfg_def mids)
  then show ?thesis
    using nc by (simp add: cmp mids ex_cyclic_def ex_cfg_def)
qed

subsection \<open>retrieve\<close>

lemma slice0_take: "slice0 e xs = take (slice_count e (length xs)) xs"
proof (cases e)
  case (Num r)
  show ?thesis
  proof (cases "trunc r < 0")
    case True
    then have "nat (max (int (length xs) + trunc r) 0) = length xs - nat (- trunc r)"
      by simp
    then show ?thesis
      using True by (simp add: Num slice0_def slice_count_def js_slice0_def)
  next
    case False
    have "take (nat (trunc r)) xs = take (min (nat (trunc r)) (length xs)) xs"
      by (simp add: min_def)
    then show ?thesis
      using False by (simp add: Num slice0_def slice_count_def js_slice0_def)
  qed
qed (simp_all add: slice0_def slice_count_def)



lemma retrieve_hits_bounded:
  "set (retrieve_hits eng cfg str now query limit s) \<subseteq> {..<length (memories s)}"
proof -
  have "set (slice0 e (Array_sort eng cmp xs)) \<subseteq> set xs" for e cmp and xs :: "(nat \<times> number) list"
    unfolding slice0_take
    using set_take_subset [of "slice_count e (length (Array_sort eng cmp xs))" "Array_sort eng cmp xs"]
    by (simp add: set_Array_sort)
  then show ?thesis
    unfolding retrieve_hits_def Let_def by fastforce
qed

text \<open>
  Claim C10. \<open>retrieve\<close> changes nothing but \<open>lastAccessed\<close>, and only of entries it returns:
  the store keeps its length; at every position the identifier, content, type, creation
  time, importance and entity list are what they were; an entry either is unchanged or has
  \<open>lastAccessed\<close> set to the retrieval time and is among the returned entries; an entry that
  is not returned is unchanged; \<open>importanceSinceLastReflection\<close> and the identifier counter
  are unchanged.
\<close>

theorem retrieve_frame:
  "length (memories (snd (retrieve eng cfg str now query limit s))) = length (memories s) \<and>
   (\<forall>i<length (memories s).
      mid (memories (snd (retrieve eng cfg str now query limit s)) ! i) = mid (memories s ! i) \<and>
      content (memories (snd (retrieve eng cfg str now query limit s)) ! i) = content (memories s ! i) \<and>
      mtype (memories (snd (retrieve eng cfg str now query limit s)) ! i) = mtype (memories s ! i) \<and>
      timestamp (memories (snd (retrieve eng cfg str now query limit s)) ! i) = timestamp (memories s ! i) \<and>
      importance (memories (snd (retrieve eng cfg str now query limit s)) ! i) = importance (memories s ! i) \<and>
      entities (memories (snd (retrieve eng cfg str now query limit s)) ! i) = entities (memories s ! i) \<and>
      (memories (snd (retrieve eng cfg str now query limit s)) ! i = memories s ! i \<or>
       memories (snd (retrieve eng cfg str now query limit s)) ! i = (memories s ! i)\<lparr>lastAccessed := now\<rparr> \<and>
       memories (snd (retrieve eng cfg str now query limit s)) ! i
         \<in> set (fst (retrieve eng cfg str now query limit s)))) \<and>
   (\<forall>i<length (memories s).
      memories (snd (retrieve eng cfg str now query limit s)) ! i
        \<notin> set (fst (retrieve eng cfg str now query limit s))
      \<longrightarrow> memories (snd (retrieve eng cfg str now query limit s)) ! i = memories s ! i) \<and>
   importanceSinceLastReflection (snd (retrieve eng cfg str now query limit s))
     = importanceSinceLastReflection s \<and>
   nextId (snd (retrieve eng cfg str now query limit s)) = nextId s"
proof (cases "memories s = []")
  case True
  then show ?thesis
    by (simp add: retrieve_def)
next
  case False
  define hits where "hits = retrieve_hits eng cfg str now query limit s"
  define touched where "touched = map (\<lambda>i. if i \<in> set hits then (memories s ! i)\<lparr>lastAccessed := now\<rparr>
      else memories s ! i) [0..<length (memories s)]"
  have r: "retrieve eng cfg str now query limit s = (map (\<lambda>i. touched ! i) hits, s\<lparr>memories := touched\<rparr>)"
    using False by (simp add: retrieve_def Let_def hits_def touched_def)
  have len: "length touched = length (memories s)"
    by (simp add: touched_def)
  have nth: "touched ! i = (if i \<in> set hits then (memories s ! i)\<lparr>lastAccessed := now\<rparr> else memories s ! i)"
    if "i < length (memories s)" for i
    using that by (simp add: touched_def)
  have ret: "(memories s ! i)\<lparr>lastAccessed := now\<rparr> \<in> (!) touched ` set hits"
    if "i \<in> set hits" "i < length (memories s)" for i
    using that nth [of i] by (metis imageI)
  show ?thesis
    unfolding r using len nth ret by simp
qed





























lemmas tokenize_defs = tokenize_def toLowerCase_def is_space_def is_token_char_def




lemma ex_three_fields:
  "content ex_sighting = ''A wolf appeared''" "entities ex_sighting = [''Wolf'']"
  "content ex_trade = ''I traded with Bob''" "entities ex_trade = [''Bob'']"
  "content ex_attack = ''Wolf attacked me''" "entities ex_attack = []"
  "lastAccessed ex_sighting = 0" "lastAccessed ex_trade = 0" "lastAccessed ex_attack = 3600000"
  "importance ex_sighting = num 0.2" "importance ex_trade = num 0.5" "importance ex_attack = num 0.9"
  by (simp_all add: ex_sighting_def ex_trade_def ex_attack_def)










theorem retrieve_frame_witness:
  "(0::nat) < length (memories ex_three) \<and>
   length (memories (snd (retrieve ex_engine ex_cfg200 id 3600000 ''the WOLF!'' (Some (Num 2)) ex_three))) = 3 \<and>
   content (memories (snd (retrieve ex_engine ex_cfg200 id 3600000 ''the WOLF!'' (Some (Num 2)) ex_three)) ! 0)
     = ''A wolf appeared'' \<and>
   importance (memories (snd (retrieve ex_engine ex_cfg200 id 3600000 ''the WOLF!'' (Some (Num 2)) ex_three)) ! 0)
     = num 0.2 \<and>
   nextId (snd (retrieve ex_engine ex_cfg200 id 3600000 ''the WOLF!'' (Some (Num 2)) ex_three)) = 3 \<and>
   importanceSinceLastReflection
     (snd (retrieve ex_engine ex_cfg200 id 3600000 ''the WOLF!'' (Some (Num 2)) ex_three)) = num 1.6"
proof -
  have h: "(0::nat) < length (memories ex_three)"
    by (simp add: ex_three_def)
  have v: "length (memories ex_three) = 3" "content (memories ex_three ! 0) = ''A wolf appeared''"
    "importance (memories ex_three ! 0) = num 0.2" "nextId ex_three = 3"
    "importanceSinceLastReflection ex_three = num 1.6"
    unfolding ex_three_def by (simp_all add: ex_three_fields)
  note main = retrieve_frame [where eng = ex_engine and cfg = ex_cfg200 and str = id and now = 3600000
      and query = "''the WOLF!''" and limit = "Some (Num 2)" and s = ex_three]
  let ?s' = "snd (retrieve ex_engine ex_cfg200 id 3600000 ''the WOLF!'' (Some (Num 2)) ex_three)"
  from main have "length (memories ?s') = length (memories ex_three)"
    and "nextId ?s' = nextId ex_three"
    and "importanceSinceLastReflection ?s' = importanceSinceLastReflection ex_three"
    by blast+
  moreover from main h have "content (memories ?s' ! 0) = content (memories ex_three ! 0)"
    and "importance (memories ?s' ! 0) = importance (memories ex_three ! 0)"
    by blast+
  ultimately show ?thesis
    unfolding v using h by simp
qed

subsection \<open>reflect\<close>

lemma lit_08_reduced: "num (4 / 5) = Num (3602879701896397 / 4503599627370496)"
  by (rule num_eval [where e = "- 1"]) (simp_all add: roundTiesToEven_def)

lemma lit_16_reduced: "num (8 / 5) = Num (3602879701896397 / 2251799813685248)"
  by (rule num_eval [where e = 0]) (simp_all add: roundTiesToEven_def)

lemma num_08: "num (3602879701896397 / 4503599627370496) = Num (3602879701896397 / 4503599627370496)"
  by (rule num_eval [where e = "- 1"]) (simp_all add: roundTiesToEven_def)

lemma num_16: "num (3602879701896397 / 2251799813685248) = Num (3602879701896397 / 2251799813685248)"
  by (rule num_eval [where e = 0]) (simp_all add: roundTiesToEven_def)

lemmas reflect_evals = lit_08 lit_16 lit_08_reduced lit_16_reduced num_08 num_16 num_zero

lemma clamp_08_reduced: "Math_max (Num 0) (Math_min (Num 1) (num (4 / 5))) = num (4 / 5)"
  by (simp add: Math_max_def Math_min_def reflect_evals)

lemma add_fst:
  "fst (add eng cfg now c ty imp ents s) = \<lparr>mid = nextId s, content = c, mtype = ty, timestamp = now,
     lastAccessed = now, importance = Math_max (Num 0) (Math_min (Num 1) imp), entities = ents\<rparr>"
  by (simp add: add_def Let_def)

lemma evict_other_fields:
  "importanceSinceLastReflection (evict eng cfg s) = importanceSinceLastReflection s"
  "nextId (evict eng cfg s) = nextId s"
  by (simp_all add: evict_def Let_def)

lemma add_accumulates:
  "importanceSinceLastReflection (snd (add eng cfg now c ty imp ents s))
     = num_add (importanceSinceLastReflection s) (Math_max (Num 0) (Math_min (Num 1) imp))"
  by (simp add: add_def Let_def evict_other_fields)

lemma add_nextId: "nextId (snd (add eng cfg now c ty imp ents s)) = nextId s + 1"
  by (simp add: add_def Let_def evict_other_fields)

lemma add_appends:
  "length (memories s) < maxMemories cfg \<Longrightarrow>
   memories (snd (add eng cfg now c ty imp ents s)) = memories s @ [fst (add eng cfg now c ty imp ents s)]"
  by (simp add: add_def Let_def)

lemma add_insights_accumulates:
  "importanceSinceLastReflection (snd (add_insights eng cfg clock k xs s))
     = foldl (\<lambda>a x. num_add a (num 0.8)) (importanceSinceLastReflection s) xs"
  by (induction xs arbitrary: k s)
     (simp_all add: split_beta Let_def add_accumulates clamp_08_reduced)

lemma two_insights_accumulate:
  assumes "length xs \<le> 2"
  shows "foldl (\<lambda>a x. num_add a (num 0.8)) (Num 0) xs = num (0.8 * real (length xs))"
proof -
  consider "xs = []" | a where "xs = [a]" | a b where "xs = [a, b]"
    using assms by (cases xs; cases "tl xs"; cases "tl (tl xs)") auto
  then show ?thesis
    by cases (simp_all add: reflect_evals)
qed

lemma two_insights_bound:
  assumes "n \<le> 2"
  shows "\<exists>a. num (0.8 * real n) = Num a \<and> a \<le> 3602879701896397 / 2251799813685248"
proof -
  consider "n = 0" | "n = 1" | "n = 2"
    using assms by linarith
  then show ?thesis
  proof cases
    case 1
    then have "num (0.8 * real n) = Num 0"
      by (simp add: reflect_evals)
    moreover have "(0::real) \<le> 3602879701896397 / 2251799813685248"
      by simp
    ultimately show ?thesis by blast
  next
    case 2
    then have "num (0.8 * real n) = Num (3602879701896397 / 4503599627370496)"
      by (simp add: reflect_evals)
    moreover have "(3602879701896397 / 4503599627370496 :: real) \<le> 3602879701896397 / 2251799813685248"
      by simp
    ultimately show ?thesis by blast
  next
    case 3
    then have "num (0.8 * real n) = Num (3602879701896397 / 2251799813685248)"
      by (simp add: reflect_evals)
    then show ?thesis by blast
  qed
qed

lemma num_ge_below: "num_lt (Num b) thr \<Longrightarrow> a \<le> b \<Longrightarrow> \<not> num_ge (Num a) thr"
  by (cases thr) (auto simp: num_ge_def)

lemma add_insights_nextId:
  "nextId (snd (add_insights eng cfg clock k xs s)) = nextId s + length xs"
  by (induction xs arbitrary: k s) (simp_all add: split_beta Let_def add_nextId)

lemma add_insights_fst:
  "fst (add_insights eng cfg clock k xs s)
     = map (\<lambda>i. reflection_entry (nextId s + i) (xs ! i) (clock (k + i))) [0..<length xs]"
proof (induction xs arbitrary: k s)
  case Nil
  show ?case by simp
next
  case (Cons x xs)
  have "map (\<lambda>i. reflection_entry (nextId s + i) ((x # xs) ! i) (clock (k + i))) [0..<length (x # xs)]
      = reflection_entry (nextId s) x (clock k)
        # map (\<lambda>i. reflection_entry (nextId s + Suc i) (xs ! i) (clock (k + Suc i))) [0..<length xs]"
    by (simp add: upt_conv_Cons map_Suc_upt [symmetric] del: upt_Suc)
  then show ?case
    by (simp add: split_beta Let_def Cons.IH add_nextId add_fst reflection_entry_def clamp_08_reduced)
qed

lemma add_insights_appends:
  "length (memories s) + length xs \<le> maxMemories cfg \<Longrightarrow>
   memories (snd (add_insights eng cfg clock k xs s)) = memories s @ fst (add_insights eng cfg clock k xs s)"
proof (induction xs arbitrary: k s)
  case Nil
  show ?case by simp
next
  case (Cons x xs)
  let ?s1 = "snd (add eng cfg (clock k) x Reflection (num 0.8) [] s)"
  have lt: "length (memories s) < maxMemories cfg"
    using Cons.prems by simp
  then have m1: "memories ?s1 = memories s @ [fst (add eng cfg (clock k) x Reflection (num 0.8) [] s)]"
    by (rule add_appends)
  then have "length (memories ?s1) + length xs \<le> maxMemories cfg"
    using Cons.prems by simp
  then have "memories (snd (add_insights eng cfg clock (Suc k) xs ?s1))
      = memories ?s1 @ fst (add_insights eng cfg clock (Suc k) xs ?s1)"
    by (rule Cons.IH)
  with m1 show ?case
    by (simp add: split_beta Let_def)
qed

lemma well_formed_resolve:
  assumes "well_formed_reply r"
  shows "reflect_resolve eng cfg clock r s =
    (Some (fst (add_insights eng cfg clock 0 (take 2 (reply_insights r))
             (s\<lparr>importanceSinceLastReflection := Num 0\<rparr>))),
     snd (add_insights eng cfg clock 0 (take 2 (reply_insights r))
            (s\<lparr>importanceSinceLastReflection := Num 0\<rparr>)))"
proof -
  from assms obtain kvs xs where r: "r = Parsed (JObj kvs)" "map_of kvs ''insights'' = Some (JArr xs)"
    by (auto elim!: well_formed_reply.elims split: option.splits json.splits)
  show ?thesis
    by (simp add: r reflect_resolve_def falsy_def split_beta Let_def)
qed

text \<open>
  Claim C3, as amended. For a store with \<open>shouldReflect\<close> and a well-formed reply, \<open>reflect\<close>
  sets \<open>importanceSinceLastReflection\<close> to 0 and then adds the first two insights through
  \<open>add\<close>, as reflections of importance 0.8; each \<open>add\<close> accumulates its importance, so the
  accumulator ends at 0.8 times the number of added insights (at most 1.6). The new entries
  are appended when they fit within the capacity. If the threshold exceeds 1.6,
  \<open>shouldReflect\<close> is false right after the call; and it is false for every store whose
  accumulated importance is below the threshold.
\<close>

theorem reflect_well_formed:
  assumes "shouldReflect cfg s" and "well_formed_reply r"
  shows "let xs = take 2 (reply_insights r);
             new = map (\<lambda>i. reflection_entry (nextId s + i) (xs ! i) (clock i)) [0..<length xs];
             s' = snd (reflect eng cfg clock r s)
         in fst (reflect eng cfg clock r s) = Some new \<and>
            length new \<le> 2 \<and>
            (\<forall>e\<in>set new. mtype e = Reflection \<and> importance e = num 0.8) \<and>
            importanceSinceLastReflection s' = num (0.8 * real (length new)) \<and>
            (length (memories s) + length new \<le> maxMemories cfg \<longrightarrow> memories s' = memories s @ new) \<and>
            (num_lt (num 1.6) (reflectionThreshold cfg) \<longrightarrow> \<not> shouldReflect cfg s') \<and>
            (\<forall>t. num_lt (importanceSinceLastReflection t) (reflectionThreshold cfg)
                  \<longrightarrow> \<not> shouldReflect cfg t)"
proof -
  define xs where "xs = take 2 (reply_insights r)"
  define s0 where "s0 = s\<lparr>importanceSinceLastReflection := Num 0\<rparr>"
  define new where "new = map (\<lambda>i. reflection_entry (nextId s + i) (xs ! i) (clock i)) [0..<length xs]"
  define s' where "s' = snd (reflect eng cfg clock r s)"
  have r: "reflect eng cfg clock r s
      = (Some (fst (add_insights eng cfg clock 0 xs s0)), snd (add_insights eng cfg clock 0 xs s0))"
    using assms by (simp add: reflect_def well_formed_resolve xs_def s0_def)
  have new: "fst (add_insights eng cfg clock 0 xs s0) = new"
    by (simp add: add_insights_fst new_def s0_def)
  have len: "length new \<le> 2"
    by (simp add: new_def xs_def)
  have "importanceSinceLastReflection s' = foldl (\<lambda>a x. num_add a (num 0.8)) (Num 0) xs"
    by (simp add: s'_def r add_insights_accumulates s0_def)
  also have "\<dots> = num (0.8 * real (length xs))"
    by (rule two_insights_accumulate) (simp add: xs_def)
  finally have acc: "importanceSinceLastReflection s' = num (0.8 * real (length new))"
    by (simp add: new_def)
  have mem: "memories s' = memories s @ new" if "length (memories s) + length new \<le> maxMemories cfg"
  proof -
    have "length (memories s0) + length xs \<le> maxMemories cfg"
      using that by (simp add: s0_def new_def)
    then have "memories (snd (add_insights eng cfg clock 0 xs s0)) = memories s0 @ new"
      using add_insights_appends [of s0 xs cfg eng clock 0] new by simp
    then show ?thesis
      by (simp add: s'_def r s0_def)
  qed
  have quiet: "\<not> shouldReflect cfg s'" if "num_lt (num 1.6) (reflectionThreshold cfg)"
  proof -
    from two_insights_bound [OF len] obtain a
      where a: "num (0.8 * real (length new)) = Num a" "a \<le> 3602879701896397 / 2251799813685248"
      by blast
    have "\<not> num_ge (Num a) (reflectionThreshold cfg)"
      using that a(2) unfolding lit_16 by (rule num_ge_below)
    then show ?thesis
      unfolding shouldReflect_def acc a(1) by simp
  qed
  have ty: "\<forall>e\<in>set new. mtype e = Reflection \<and> importance e = num 0.8"
    by (auto simp: new_def reflection_entry_def)
  have below: "\<forall>t :: 'a MemoryStream.
      num_lt (importanceSinceLastReflection t) (reflectionThreshold cfg) \<longrightarrow> \<not> shouldReflect cfg t"
    by (simp add: shouldReflect_def num_lt_not_ge)
  show ?thesis
    unfolding Let_def xs_def [symmetric] new_def [symmetric] s'_def [symmetric]
    using r new len acc mem quiet ty below by simp
qed

lemmas ex_reflect_defs = ex_cfg200_def ex_obs_def ex_five_def ex_good_reply_def ex_clock_def

theorem reflect_well_formed_witness:
  "shouldReflect ex_cfg200 ex_five \<and> well_formed_reply ex_good_reply \<and>
   fst (reflect ex_engine ex_cfg200 ex_clock ex_good_reply ex_five)
     = Some [reflection_entry 5 (JStr ''a'') 100, reflection_entry 6 (JStr ''b'') 101] \<and>
   importanceSinceLastReflection (snd (reflect ex_engine ex_cfg200 ex_clock ex_good_reply ex_five))
     = num 1.6 \<and>
   memories (snd (reflect ex_engine ex_cfg200 ex_clock ex_good_reply ex_five))
     = memories ex_five @ [reflection_entry 5 (JStr ''a'') 100, reflection_entry 6 (JStr ''b'') 101] \<and>
   \<not> shouldReflect ex_cfg200 (snd (reflect ex_engine ex_cfg200 ex_clock ex_good_reply ex_five))"
proof -
  have h1: "shouldReflect ex_cfg200 ex_five"
    by (simp add: shouldReflect_def num_ge_def ex_reflect_defs)
  have h2: "well_formed_reply ex_good_reply"
    by (simp add: ex_reflect_defs)
  have xs: "take 2 (reply_insights ex_good_reply) = [JStr ''a'', JStr ''b'']"
    by (simp add: ex_reflect_defs)
  have v: "nextId ex_five = 5" "ex_clock 0 = 100" "ex_clock (Suc 0) = 101"
    "length (memories ex_five) = 5" "maxMemories ex_cfg200 = 200" "reflectionThreshold ex_cfg200 = Num 3"
    by (simp_all add: ex_reflect_defs)
  have up: "[0..<length [JStr ''a'', JStr ''b'']] = [0, Suc 0]"
    by (simp add: upt_conv_Cons)
  have below: "num_lt (num 1.6) (Num 3)"
    by (simp add: reflect_evals)
  show ?thesis
    using h1 h2 below reflect_well_formed [OF h1 h2, where clock = ex_clock and eng = ex_engine]
    unfolding Let_def xs up by (simp add: v) blast
qed

text \<open>
  Claim C3 as stated fails: after a successful \<open>reflect\<close> the accumulator is not 0. With five
  stored entries, accumulated importance 3 (the threshold) and a reply with two insights,
  the accumulator is reset and then raised by the two calls of \<open>add\<close>, to 1.6.
\<close>

theorem reflect_accumulator_counterexample:
  "shouldReflect ex_cfg200 ex_five \<and> well_formed_reply ex_good_reply \<and>
   importanceSinceLastReflection (snd (reflect ex_engine ex_cfg200 ex_clock ex_good_reply ex_five))
     = num 1.6 \<and>
   num 1.6 \<noteq> Num 0"
proof -
  have "importanceSinceLastReflection (snd (reflect ex_engine ex_cfg200 ex_clock ex_good_reply ex_five))
      = Num (3602879701896397 / 2251799813685248)"
    by (simp add: reflect_def reflect_resolve_def shouldReflect_def num_ge_def falsy_def add_def Let_def
        Math_max_def Math_min_def ex_reflect_defs reflect_evals)
  then show ?thesis
    by (simp add: shouldReflect_def num_ge_def ex_reflect_defs reflect_evals)
qed

text \<open>
  Claim C7, as amended. When the call fails, the response is absent, the response is not
  JSON, or it parses to \<^verbatim>\<open>null\<close>, \<open>reflect\<close> returns \<^verbatim>\<open>null\<close> and leaves the store as it is; so
  it does when \<open>shouldReflect\<close> is false. A parsed object without a member \<^verbatim>\<open>insights\<close> adds
  no entry and sets \<open>importanceSinceLastReflection\<close> to 0.
\<close>

theorem reflect_failure_keeps_store:
  "reflect_resolve eng cfg clock Rejected s = (None, s) \<and>
   reflect_resolve eng cfg clock NoResponse s = (None, s) \<and>
   reflect_resolve eng cfg clock Unparseable s = (None, s) \<and>
   reflect_resolve eng cfg clock (Parsed JNull) s = (None, s) \<and>
   (r \<in> {Rejected, NoResponse, Unparseable, Parsed JNull} \<longrightarrow> reflect eng cfg clock r s = (None, s)) \<and>
   (\<not> shouldReflect cfg s \<longrightarrow> reflect eng cfg clock r s = (None, s)) \<and>
   (map_of kvs ''insights'' = None \<longrightarrow>
      reflect_resolve eng cfg clock (Parsed (JObj kvs)) s
        = (Some [], s\<lparr>importanceSinceLastReflection := Num 0\<rparr>))"
  by (auto simp: reflect_def reflect_resolve_def)

theorem reflect_failure_keeps_store_witness:
  "\<not> shouldReflect ex_cfg200 (new_MemoryStream :: json MemoryStream) \<and>
   reflect ex_engine ex_cfg200 ex_clock ex_good_reply new_MemoryStream = (None, new_MemoryStream) \<and>
   reflect ex_engine ex_cfg200 ex_clock Unparseable ex_five = (None, ex_five) \<and>
   reflect_resolve ex_engine ex_cfg200 ex_clock (Parsed (JObj [])) ex_five
     = (Some [], ex_five\<lparr>importanceSinceLastReflection := Num 0\<rparr>)"
proof -
  have h: "\<not> shouldReflect ex_cfg200 (new_MemoryStream :: json MemoryStream)"
    by (simp add: shouldReflect_def new_MemoryStream_def)
  show ?thesis
    using h reflect_failure_keeps_store [where eng = ex_engine and cfg = ex_cfg200 and clock = ex_clock
        and s = new_MemoryStream and r = ex_good_reply and kvs = "[]"]
      reflect_failure_keeps_store [where eng = ex_engine and cfg = ex_cfg200 and clock = ex_clock
        and s = ex_five and r = Unparseable and kvs = "[]"]
    by simp
qed

text \<open>
  Claim C7 as stated fails: the reply \<^verbatim>\<open>{}\<close> is not a well-formed list of insights, and
  \<open>reflect\<close> resets the accumulator (here from 3 to 0), because a missing \<^verbatim>\<open>insights\<close> is
  read as the empty list.
\<close>

theorem reflect_malformed_counterexample:
  "shouldReflect ex_cfg200 ex_five \<and> \<not> well_formed_reply (Parsed (JObj [])) \<and>
   importanceSinceLastReflection ex_five = Num 3 \<and>
   importanceSinceLastReflection (snd (reflect ex_engine ex_cfg200 ex_clock (Parsed (JObj [])) ex_five))
     = Num 0"
  by (simp add: reflect_def reflect_resolve_def shouldReflect_def num_ge_def ex_reflect_defs)

section \<open>Properties of the behaviour controller\<close>

lemmas ex_ctrl_defs = ex_entity_def ex_objs_def ex_env_def ex_ctrl_def ex_chatting_def
  new_AIController_def AI_CONFIG_def

subsection \<open>Thresholds of proximity\<close>





subsection \<open>The dead state\<close>

lemma dead_tick:
  "isDead (self_entity (objs env) c) \<Longrightarrow> computeAIMoveState env deltaTime c = (still, c\<lparr>aiState := dead\<rparr>)"
  by (simp add: computeAIMoveState_def)

lemma dead_decision_discarded:
  "isDead (self_entity (objs env) c) \<Longrightarrow> setActionFromAPI env actionData c = c\<lparr>aiState := dead\<rparr>"
  by (simp add: setActionFromAPI_def)

lemma dead_no_new_decision:
  "isDead (self_entity (objs env) c) \<Longrightarrow> decideNextAction env c = c\<lparr>aiState := dead\<rparr>"
  by (simp add: decideNextAction_def)

lemma dead_failed_call:
  "isDead (self_entity (objs env) c) \<Longrightarrow>
   decideNextAction_resolve env CallFailed c = c\<lparr>aiState := dead\<rparr>"
  by (simp add: decideNextAction_resolve_def decision_failed_def)

text \<open>
  Claim C8 fails on one path of the code. A tick of a dead agent is a no-op (\<open>dead_tick\<close>),
  a parsed decision is discarded (\<open>dead_decision_discarded\<close>) and so is a failed call
  (\<open>dead_failed_call\<close>); but when the awaited reply is empty, \<open>decideNextAction\<close> calls
  \<open>fallbackToDefaultBehavior\<close> without looking at \<^verbatim>\<open>isDead\<close>, and the dead agent in state
  \<open>dead\<close> is put in state \<open>roaming\<close> with a destination.
\<close>

theorem dead_empty_response_roams:
  "isDead (self_entity (objs (ex_env True)) ex_dead) \<and> aiState ex_dead = dead \<and>
   aiState (decideNextAction_resolve (ex_env True) EmptyResponse ex_dead) = roaming \<and>
   destination (decideNextAction_resolve (ex_env True) EmptyResponse ex_dead)
     = Some (Vector3 10 0 0)"
  by (simp add: decideNextAction_resolve_def reflection_trigger_def fallbackToDefaultBehavior_def
      emit_def shouldReflect_def self_entity_def entity_of_def v_add_def Let_def
      ex_dead_def ex_ctrl_defs ex_cfg200_def new_MemoryStream_def)

subsection \<open>The reflex layer\<close>

lemma encodeActionMemory_fields:
  "effects (encodeActionMemory env a n d c) = effects c"
  "aiState (encodeActionMemory env a n d c) = aiState c"
  "targetAction (encodeActionMemory env a n d c) = targetAction c"
  "isReflexAction (encodeActionMemory env a n d c) = isReflexAction c"
  "target (encodeActionMemory env a n d c) = target c"
  by (simp_all add: encodeActionMemory_def Let_def)

lemma emit_fields:
  "effects (emit e c) = effects c @ [e]"
  "aiState (emit e c) = aiState c"
  "targetAction (emit e c) = targetAction c"
  "isReflexAction (emit e c) = isReflexAction c"
  "target (emit e c) = target c"
  by (simp_all add: emit_def)

lemma triggerFlee_fires:
  "aiState (triggerFlee env t i c) = fleeing"
  "target (triggerFlee env t i c) = None"
  "length (effects (triggerFlee env t i c)) > length (effects c)"
  by (simp_all add: triggerFlee_def Let_def emit_fields encodeActionMemory_fields)

lemma deliberate_other_iff:
  "deliberate_other c \<longleftrightarrow> \<not> isReflexAction c \<and> targetAction c \<noteq> None \<and> targetAction c \<noteq> Some attack"
proof (cases "targetAction c")
  case None
  then show ?thesis by (simp add: deliberate_other_def)
next
  case (Some a)
  then show ?thesis by (cases a) (simp_all add: deliberate_other_def)
qed

lemma triggerAttack_held: "deliberate_other c \<Longrightarrow> triggerAttack env t i c = c"
  by (simp add: triggerAttack_def deliberate_other_iff)

lemma triggerAttack_fires:
  assumes "\<not> deliberate_other c"
  shows "aiState (triggerAttack env t i c) = movingToTarget"
    and "targetAction (triggerAttack env t i c) = Some attack"
    and "isReflexAction (triggerAttack env t i c)"
    and "target (triggerAttack env t i c) = Some t"
    and "length (effects (triggerAttack env t i c)) > length (effects c)"
proof -
  have g: "\<not> (\<not> isReflexAction c \<and> targetAction c \<noteq> None \<and> targetAction c \<noteq> Some attack)"
    using assms by (simp add: deliberate_other_iff)
  show "aiState (triggerAttack env t i c) = movingToTarget"
    and "targetAction (triggerAttack env t i c) = Some attack"
    and "isReflexAction (triggerAttack env t i c)"
    and "target (triggerAttack env t i c) = Some t"
    and "length (effects (triggerAttack env t i c)) > length (effects c)"
    unfolding triggerAttack_def if_not_P [OF g]
    by (simp_all add: Let_def emit_fields encodeActionMemory_fields)
qed

lemma evaluateReflex_closed: "\<not> reflex_gate env c \<Longrightarrow> evaluateReflex env c = c"
  by (auto simp: reflex_gate_def evaluateReflex_def split: option.splits)

lemma reflex_low_health_cases:
  "reflex_low_health env c obs = Some c' \<Longrightarrow>
   \<exists>t i. c' = triggerFlee env t i (c\<lparr>lastReflexTime := reflexNow env\<rparr>)"
  by (auto simp: reflex_low_health_def split: if_splits option.splits)

lemma reflex_under_attack_cases:
  "reflex_under_attack env c obs = Some c' \<Longrightarrow>
   (\<exists>t i. c' = triggerFlee env t i (c\<lparr>lastReflexTime := reflexNow env\<rparr>)) \<or>
   (\<exists>t i. c' = triggerAttack env t i (c\<lparr>lastReflexTime := reflexNow env\<rparr>))"
  by (auto simp: reflex_under_attack_def Let_def split: if_splits option.splits)

lemma reflex_nearby_combat_cases:
  "reflex_nearby_combat env c = Some c' \<Longrightarrow>
   c' = c\<lparr>lastReflexTime := reflexNow env\<rparr> \<or>
   (\<exists>t i. c' = triggerFlee env t i (c\<lparr>lastReflexTime := reflexNow env\<rparr>)) \<or>
   (\<exists>t i. c' = triggerAttack env t i (c\<lparr>lastReflexTime := reflexNow env\<rparr>))"
  by (auto simp: reflex_nearby_combat_def Let_def split: if_splits option.splits)

lemma reflex_hostile_nearby_cases:
  "reflex_hostile_nearby env c = c \<or>
   (\<exists>t i. reflex_hostile_nearby env c = triggerFlee env t i (c\<lparr>lastReflexTime := reflexNow env\<rparr>)) \<or>
   (\<exists>t i. reflex_hostile_nearby env c = triggerAttack env t i (c\<lparr>lastReflexTime := reflexNow env\<rparr>))"
  by (auto simp: reflex_hostile_nearby_def split: if_splits option.splits)

lemma evaluateReflex_cases:
  "evaluateReflex env c = c \<or>
   evaluateReflex env c = c\<lparr>lastReflexTime := reflexNow env\<rparr> \<or>
   (\<exists>t i. evaluateReflex env c = triggerFlee env t i (c\<lparr>lastReflexTime := reflexNow env\<rparr>)) \<or>
   (\<exists>t i. evaluateReflex env c = triggerAttack env t i (c\<lparr>lastReflexTime := reflexNow env\<rparr>))"
proof (cases "reflex_gate env c")
  case False
  then show ?thesis by (simp add: evaluateReflex_closed)
next
  case True
  then obtain obs where obs: "observation c = Some obs"
    by (auto simp: reflex_gate_def)
  have open_gate: "\<not> reflexNow env - lastReflexTime c < reflexCooldown (reflexCfg env)"
    "aiState c \<noteq> deciding"
    using True by (simp_all add: reflex_gate_def)
  show ?thesis
  proof (cases "reflex_low_health env c obs")
    case (Some c')
    then have "evaluateReflex env c = c'"
      using obs open_gate by (simp add: evaluateReflex_def)
    then show ?thesis
      using reflex_low_health_cases [OF Some] by auto
  next
    case p1: None
    show ?thesis
    proof (cases "reflex_under_attack env c obs")
      case (Some c')
      then have "evaluateReflex env c = c'"
        using obs open_gate p1 by (simp add: evaluateReflex_def)
      then show ?thesis
        using reflex_under_attack_cases [OF Some] by auto
    next
      case p2: None
      show ?thesis
      proof (cases "reflex_nearby_combat env c")
        case (Some c')
        then have "evaluateReflex env c = c'"
          using obs open_gate p1 p2 by (simp add: evaluateReflex_def)
        then show ?thesis
          using reflex_nearby_combat_cases [OF Some] by auto
      next
        case None
        then have "evaluateReflex env c = reflex_hostile_nearby env c"
          using obs open_gate p1 p2 by (simp add: evaluateReflex_def)
        then show ?thesis
          using reflex_hostile_nearby_cases [of env c] by auto
      qed
    qed
  qed
qed

text \<open>
  Claim C6, as amended. \<open>evaluateReflex\<close> leaves the controller as it is unless the cooldown
  has elapsed, an observation exists and the state is not \<open>deciding\<close>. When a reflex fires
  (a collaborator is called), it is a flee, or it is an attack and then no deliberate chat,
  trade or follow was in progress. While such an action is in progress the call changes
  nothing, or only \<open>lastReflexTime\<close>, or it is a flee, which drops the target.
\<close>

theorem reflex_guards:
  "(\<not> reflex_gate env c \<longrightarrow> evaluateReflex env c = c) \<and>
   (effects (evaluateReflex env c) \<noteq> effects c \<longrightarrow>
      reflexNow env - lastReflexTime c \<ge> reflexCooldown (reflexCfg env) \<and>
      observation c \<noteq> None \<and> aiState c \<noteq> deciding \<and>
      (aiState (evaluateReflex env c) = fleeing \<or>
       aiState (evaluateReflex env c) = movingToTarget \<and>
       targetAction (evaluateReflex env c) = Some attack \<and>
       isReflexAction (evaluateReflex env c) \<and> \<not> deliberate_other c)) \<and>
   (deliberate_other c \<longrightarrow>
      evaluateReflex env c = c \<or> evaluateReflex env c = c\<lparr>lastReflexTime := reflexNow env\<rparr> \<or>
      aiState (evaluateReflex env c) = fleeing \<and> target (evaluateReflex env c) = None)"
proof (intro conjI impI)
  assume "\<not> reflex_gate env c"
  then show "evaluateReflex env c = c"
    by (rule evaluateReflex_closed)
next
  let ?c1 = "c\<lparr>lastReflexTime := reflexNow env\<rparr>"
  have d1: "deliberate_other ?c1 = deliberate_other c"
    by (simp add: deliberate_other_def)
  assume fired: "effects (evaluateReflex env c) \<noteq> effects c"
  then have "reflex_gate env c"
    using evaluateReflex_closed [of env c] by metis
  then show "reflexNow env - lastReflexTime c \<ge> reflexCooldown (reflexCfg env)"
    and "observation c \<noteq> None" and "aiState c \<noteq> deciding"
    by (simp_all add: reflex_gate_def)
  from evaluateReflex_cases [of env c] fired
  consider t i where "evaluateReflex env c = triggerFlee env t i ?c1"
    | t i where "evaluateReflex env c = triggerAttack env t i ?c1"
    by auto
  then show "aiState (evaluateReflex env c) = fleeing \<or>
       aiState (evaluateReflex env c) = movingToTarget \<and>
       targetAction (evaluateReflex env c) = Some attack \<and>
       isReflexAction (evaluateReflex env c) \<and> \<not> deliberate_other c"
  proof cases
    case 1
    then show ?thesis by (simp add: triggerFlee_fires)
  next
    case 2
    have "\<not> deliberate_other ?c1"
    proof
      assume "deliberate_other ?c1"
      then have "evaluateReflex env c = ?c1"
        using 2 by (simp add: triggerAttack_held)
      then show False using fired by simp
    qed
    then show ?thesis
      using 2 d1 by (simp add: triggerAttack_fires)
  qed
next
  let ?c1 = "c\<lparr>lastReflexTime := reflexNow env\<rparr>"
  assume "deliberate_other c"
  then have held: "deliberate_other ?c1"
    by (simp add: deliberate_other_def)
  from evaluateReflex_cases [of env c]
  show "evaluateReflex env c = c \<or> evaluateReflex env c = ?c1 \<or>
      aiState (evaluateReflex env c) = fleeing \<and> target (evaluateReflex env c) = None"
    using held by (auto simp: triggerAttack_held triggerFlee_fires)
qed

subsection \<open>Goal re-acquisition\<close>












lemma ex_flee:
  "evaluateReflex (ex_env False) ex_chatting
     = triggerFlee (ex_env False) 2 ''Low health, retreating!'' (ex_chatting\<lparr>lastReflexTime := 10000\<rparr>)"
  by (simp add: evaluateReflex_def reflex_low_health_def healthRatio_def findNearestThreat_def
      findAttacker_def self_position_def self_entity_def entity_of_def mesh_position_def
      distanceToSquared_def ex_ctrl_defs)

theorem reflex_guards_witness:
  "deliberate_other ex_chatting \<and>
   effects (evaluateReflex (ex_env False) ex_chatting) \<noteq> effects ex_chatting \<and>
   aiState (evaluateReflex (ex_env False) ex_chatting) = fleeing \<and>
   observation ex_chatting \<noteq> None \<and>
   \<not> reflex_gate (ex_env False) ex_deciding \<and>
   evaluateReflex (ex_env False) ex_deciding = ex_deciding"
proof -
  have h1: "deliberate_other ex_chatting"
    by (simp add: deliberate_other_def ex_ctrl_defs)
  have "length (effects (evaluateReflex (ex_env False) ex_chatting))
      > length (effects (ex_chatting\<lparr>lastReflexTime := 10000\<rparr>))"
    unfolding ex_flee by (rule triggerFlee_fires)
  then have h2: "effects (evaluateReflex (ex_env False) ex_chatting) \<noteq> effects ex_chatting"
    by auto
  have h3: "\<not> reflex_gate (ex_env False) ex_deciding"
    by (simp add: reflex_gate_def ex_deciding_def)
  have fl: "aiState (evaluateReflex (ex_env False) ex_chatting) = fleeing"
    unfolding ex_flee by (rule triggerFlee_fires)
  show ?thesis
    using h1 h2 h3 fl reflex_guards [of "ex_env False" ex_chatting]
      reflex_guards [of "ex_env False" ex_deciding]
    by blast
qed

text \<open>
  Claim C6 as stated fails: \<open>triggerFlee\<close> has no guard. An agent on its way to a chat that
  a decision started, at a tenth of its health and with its attacker in range, flees: the
  state becomes \<open>fleeing\<close> and target and action are dropped.
\<close>

theorem reflex_interrupts_chat_counterexample:
  "aiState ex_chatting = movingToTarget \<and> targetAction ex_chatting = Some chat \<and>
   \<not> isReflexAction ex_chatting \<and>
   aiState (evaluateReflex (ex_env False) ex_chatting) = fleeing \<and>
   target (evaluateReflex (ex_env False) ex_chatting) = None \<and>
   targetAction (evaluateReflex (ex_env False) ex_chatting) = None"
  unfolding ex_flee
  by (simp add: triggerFlee_def Let_def emit_def encodeActionMemory_def ex_ctrl_defs)








end
